theory Spec2Isabelle
  imports
    Complex_Main
    "HOL-Library.Char_ord"
    "HOL-Library.List_Lexorder"
    "HOL-Library.Multiset"
    "HOL-Library.Monad_Syntax"
begin

section \<open>Python values and string operations used by the validators\<close>

text \<open>
  The six scripts (shop-offers, rfm-offers, quests-weekly, main-reward-lines,
  lottery-rewards, end-news-double-points) are Python classes that read one CSV table and
  a few JSON documents. A Python \<open>str\<close> is modelled as \<open>string\<close>; the operations below
  are the ones the scripts call. Characters are bytes, so the character classes
  (\<open>\d\<close>, \<open>isdigit\<close>, white space) are the ASCII ones.
\<close>

definition is_digit :: "char \<Rightarrow> bool" where
  "is_digit c = (c \<in> set ''0123456789'')"

text \<open>White space as \<open>str.strip()\<close> sees it in ASCII: TAB, LF, VT, FF, CR, FS, GS, RS, US, SPACE.\<close>

definition is_space :: "char \<Rightarrow> bool" where
  "is_space c = (let n = (of_char c :: nat) in (9 \<le> n \<and> n \<le> 13) \<or> (28 \<le> n \<and> n \<le> 32))"

text \<open>\<open>s.strip()\<close>\<close>

definition strip :: "string \<Rightarrow> string" where
  "strip s = rev (dropWhile is_space (rev (dropWhile is_space s)))"

text \<open>\<open>s.split(sep)\<close> for a one-character separator: never empty, \<open>''.split(',') == ['']\<close>.\<close>

fun split_on :: "char \<Rightarrow> string \<Rightarrow> string list" where
  "split_on sep [] = [[]]"
| "split_on sep (c # s) =
     (if c = sep then [] # split_on sep s
      else (case split_on sep s of [] \<Rightarrow> [[c]] | p # ps \<Rightarrow> (c # p) # ps))"

text \<open>\<open>sep.join(xs)\<close>\<close>

fun join :: "string \<Rightarrow> string list \<Rightarrow> string" where
  "join sep [] = []"
| "join sep [x] = x"
| "join sep (x # y # ys) = x @ sep @ join sep (y # ys)"

text \<open>\<open>s.zfill(width)\<close>: zeros go after a leading sign.\<close>

definition zfill :: "nat \<Rightarrow> string \<Rightarrow> string" where
  "zfill width s =
     (if width \<le> length s then s
      else (case s of
              c # r \<Rightarrow>
                if c = CHR ''+'' \<or> c = CHR ''-''
                then c # replicate (width - length s) CHR ''0'' @ r
                else replicate (width - length s) CHR ''0'' @ s
            | [] \<Rightarrow> replicate width CHR ''0''))"

text \<open>\<open>k in s\<close> for two strings: substring test.\<close>

fun contains_str :: "string \<Rightarrow> string \<Rightarrow> bool" where
  "contains_str k [] = (k = [])"
| "contains_str k (c # s) = (take (length k) (c # s) = k \<or> contains_str k s)"

text \<open>\<open>s.startswith(p)\<close> and \<open>s.endswith(p)\<close>\<close>

definition startswith :: "string \<Rightarrow> string \<Rightarrow> bool" where
  "startswith s p = (take (length p) s = p)"

definition endswith :: "string \<Rightarrow> string \<Rightarrow> bool" where
  "endswith s p = (length p \<le> length s \<and> drop (length s - length p) s = p)"

section \<open>rfm-offers: date normalisation\<close>

text \<open>
  \<open>RfmOffersValidator._normalize_date_format\<close> matches
  \<open>(\d{4}-\d{2}-\d{2}) (\d):(\d{2}):(\d{2})\<close> at the start of the string with \<open>re.match\<close>.
  Every piece of the pattern has a fixed width, so the matcher is a sequence of
  "exactly n digits" and "this character" steps; nothing is required after the seconds.
\<close>

fun take_digits :: "nat \<Rightarrow> string \<Rightarrow> (string \<times> string) option" where
  "take_digits 0 s = Some ([], s)"
| "take_digits (Suc n) [] = None"
| "take_digits (Suc n) (c # s) =
     (if is_digit c then map_option (\<lambda>(d, r). (c # d, r)) (take_digits n s) else None)"

fun take_char :: "char \<Rightarrow> string \<Rightarrow> string option" where
  "take_char c [] = None"
| "take_char c (x # s) = (if x = c then Some s else None)"

definition match_hour_pattern :: "string \<Rightarrow> (string \<times> string \<times> string \<times> string) option" where
  "match_hour_pattern s = do {
     (yyyy, s1) \<leftarrow> take_digits 4 s;
     s2 \<leftarrow> take_char CHR ''-'' s1;
     (mm, s3) \<leftarrow> take_digits 2 s2;
     s4 \<leftarrow> take_char CHR ''-'' s3;
     (dd, s5) \<leftarrow> take_digits 2 s4;
     s6 \<leftarrow> take_char CHR '' '' s5;
     (hour, s7) \<leftarrow> take_digits 1 s6;
     s8 \<leftarrow> take_char CHR '':'' s7;
     (minute, s9) \<leftarrow> take_digits 2 s8;
     s10 \<leftarrow> take_char CHR '':'' s9;
     (second, rest) \<leftarrow> take_digits 2 s10;
     Some (yyyy @ ''-'' @ mm @ ''-'' @ dd, hour, minute, second)
   }"

definition normalize_date_format :: "string \<Rightarrow> string" where
  "normalize_date_format date_str =
     (if date_str = [] then []
      else (case match_hour_pattern date_str of
              Some (date_part, hour, minute, second) \<Rightarrow>
                date_part @ '' '' @ zfill 2 hour @ '':'' @ minute @ '':'' @ second
            | None \<Rightarrow> date_str))"

section \<open>JSON documents, CSV rows and dictionaries\<close>

text \<open>
  \<open>json.load\<close> yields \<open>None\<close>, booleans, numbers, strings, lists and dicts. The same
  datatype stands for the Python values the scripts pass around (subject keys, expected
  and actual values of a check). Numbers are integers: the ids and counts of these
  documents. A dict is an association list in insertion order with distinct keys.
\<close>

datatype json =
    JNull
  | JBool bool
  | JInt int
  | JStr string
  | JArr "json list"
  | JObj "(string \<times> json) list"

text \<open>A row of \<open>csv.DictReader\<close>: column name to cell text.\<close>

type_synonym row = "(string \<times> string) list"

text \<open>\<open>d.get(k)\<close> (\<open>None\<close> when absent), \<open>k in d\<close> and \<open>d[k] = v\<close> on a dict.\<close>

definition dict_get :: "('k \<times> 'v) list \<Rightarrow> 'k \<Rightarrow> 'v option" where
  "dict_get d k = map_of d k"

definition dict_has :: "('k \<times> 'v) list \<Rightarrow> 'k \<Rightarrow> bool" where
  "dict_has d k = (map_of d k \<noteq> None)"

fun dict_set :: "('k \<times> 'v) list \<Rightarrow> 'k \<Rightarrow> 'v \<Rightarrow> ('k \<times> 'v) list" where
  "dict_set [] k v = [(k, v)]"
| "dict_set ((k', v') # d) k v =
     (if k' = k then (k', v) # d else (k', v') # dict_set d k v)"

text \<open>\<open>row.get(k, '')\<close> on a CSV row.\<close>

definition row_get :: "row \<Rightarrow> string \<Rightarrow> string" where
  "row_get req k = (case map_of req k of Some v \<Rightarrow> v | None \<Rightarrow> [])"

text \<open>The exceptions that the modelled code can raise.\<close>

datatype exn =
    ValueError
  | TypeError
  | AttributeError
  | KeyError
  | UnboundLocalError
  | ZeroDivisionError
  | OSError

text \<open>Sequencing of steps that may raise: the first exception ends the computation.\<close>

definition and_then :: "exn + 'a \<Rightarrow> ('a \<Rightarrow> exn + 'b) \<Rightarrow> exn + 'b" where
  "and_then m f = (case m of Inl e \<Rightarrow> Inl e | Inr x \<Rightarrow> f x)"

text \<open>\<open>d.get(k, default)\<close>: only a dict has \<open>get\<close>.\<close>

fun py_get :: "json \<Rightarrow> string \<Rightarrow> json \<Rightarrow> exn + json" where
  "py_get (JObj kvs) k dflt = Inr (case map_of kvs k of Some v \<Rightarrow> v | None \<Rightarrow> dflt)"
| "py_get _ k dflt = Inl AttributeError"

text \<open>Truth value of a Python value, as \<open>if x:\<close> and \<open>x or y\<close> test it.\<close>

fun py_truthy :: "json \<Rightarrow> bool" where
  "py_truthy JNull = False"
| "py_truthy (JBool b) = b"
| "py_truthy (JInt i) = (i \<noteq> 0)"
| "py_truthy (JStr s) = (s \<noteq> [])"
| "py_truthy (JArr xs) = (xs \<noteq> [])"
| "py_truthy (JObj kvs) = (kvs \<noteq> [])"

definition py_or :: "json \<Rightarrow> json \<Rightarrow> json" where
  "py_or x y = (if py_truthy x then x else y)"

text \<open>Iteration \<open>for x in v\<close>: a list gives its items, a dict its keys, a string its characters.\<close>

fun py_iter :: "json \<Rightarrow> exn + json list" where
  "py_iter (JArr xs) = Inr xs"
| "py_iter (JObj kvs) = Inr (map (\<lambda>(k, v). JStr k) kvs)"
| "py_iter (JStr s) = Inr (map (\<lambda>c. JStr [c]) s)"
| "py_iter _ = Inl TypeError"

text \<open>\<open>str(n)\<close> for an integer.\<close>

fun str_of_nat :: "nat \<Rightarrow> string" where
  "str_of_nat n =
     (if n < 10 then [''0123456789'' ! n]
      else str_of_nat (n div 10) @ [''0123456789'' ! (n mod 10)])"

definition str_of_int :: "int \<Rightarrow> string" where
  "str_of_int i = (if i < 0 then CHR ''-'' # str_of_nat (nat (- i)) else str_of_nat (nat i))"

text \<open>
  \<open>str(v)\<close> and \<open>repr(v)\<close>. The text of a list or dict quotes its strings with single
  quotes, which is what Python prints for a string with no quote, backslash or control
  character in it.
\<close>

fun py_str :: "json \<Rightarrow> string" and py_repr :: "json \<Rightarrow> string" where
  "py_str (JStr s) = s"
| "py_str JNull = ''None''"
| "py_str (JBool b) = (if b then ''True'' else ''False'')"
| "py_str (JInt i) = str_of_int i"
| "py_str (JArr xs) = ''['' @ join '', '' (map py_repr xs) @ '']''"
| "py_str (JObj kvs) =
     ''{'' @ join '', '' (map (\<lambda>(k, v). [CHR 0x27] @ k @ [CHR 0x27] @ '': '' @ py_repr v) kvs) @ ''}''"
| "py_repr (JStr s) = [CHR 0x27] @ s @ [CHR 0x27]"
| "py_repr JNull = ''None''"
| "py_repr (JBool b) = (if b then ''True'' else ''False'')"
| "py_repr (JInt i) = str_of_int i"
| "py_repr (JArr xs) = ''['' @ join '', '' (map py_repr xs) @ '']''"
| "py_repr (JObj kvs) =
     ''{'' @ join '', '' (map (\<lambda>(k, v). [CHR 0x27] @ k @ [CHR 0x27] @ '': '' @ py_repr v) kvs) @ ''}''"

text \<open>\<open>re.search(r'\((\d+)\)', s)\<close>: the digits of the leftmost parenthesised digit run.\<close>

fun search_paren_digits :: "string \<Rightarrow> string option" where
  "search_paren_digits [] = None"
| "search_paren_digits (c # s) =
     (if c = CHR ''('' \<and> takeWhile is_digit s \<noteq> [] \<and> take 1 (dropWhile is_digit s) = '')''
      then Some (takeWhile is_digit s)
      else search_paren_digits s)"

section \<open>The result ledger\<close>

text \<open>
  Every validator keeps the same attributes: \<open>errors\<close>, \<open>warnings\<close>, \<open>info_logs\<close>, the
  \<open>stats\<close> counters, \<open>current_phase\<close> and a dict from subject key to a list of error
  dicts. That dict is \<open>offer_errors\<close> in shop-offers and rfm-offers, \<open>quest_errors\<close> in
  quests-weekly, \<open>action_errors\<close> in main-reward-lines and \<open>config_errors\<close> in
  lottery-rewards and end-news-double-points; here it is the field \<open>subject_errors\<close>.
  The four counters of \<open>self.stats\<close> are fields of the record.

  The scripts format each log line and error message into text with a clock reading and
  ANSI colours, and print it. The model keeps what a line is made of and leaves out the
  clock, the colours and the console. Message texts are given in English.
\<close>

datatype message =
    Text string
  | CheckMessage json string json json json

datatype log_line =
    LogInfo string
  | LogHeader string
  | LogCheckOk json string json json
  | LogCheckFail json string json json
  | LogWarning json string
  | LogError json string
  | LogSummary int int rat int int
  | LogPassed int rat
  | LogCount string nat
  | LogErrorItem nat message
  | LogWarningItem nat string

record ledger =
  errors :: "message list"
  warnings :: "string list"
  info_logs :: "log_line list"
  verbose :: bool
  json_output :: bool
  total_checks :: int
  passed_checks :: int
  failed_checks :: int
  warning_checks :: int
  current_phase :: string
  subject_errors :: "(json \<times> (string \<times> json) list list) list"

text \<open>The attributes as \<open>__init__\<close> sets them before anything is loaded.\<close>

definition init_ledger :: "bool \<Rightarrow> bool \<Rightarrow> ledger" where
  "init_ledger verbose_flag json_flag =
     \<lparr> errors = [], warnings = [], info_logs = [],
       verbose = verbose_flag, json_output = json_flag,
       total_checks = 0, passed_checks = 0, failed_checks = 0, warning_checks = 0,
       current_phase = [], subject_errors = [] \<rparr>"

text \<open>
  \<open>if key not in self.offer_errors: self.offer_errors[key] = []\<close> followed by
  \<open>self.offer_errors[key].append(entry)\<close>.
\<close>

definition append_entry ::
  "(json \<times> (string \<times> json) list list) list \<Rightarrow> json \<Rightarrow> (string \<times> json) list
     \<Rightarrow> (json \<times> (string \<times> json) list list) list" where
  "append_entry m key entry =
     (let m1 = (if dict_has m key then m else dict_set m key [])
      in dict_set m1 key ((case dict_get m1 key of Some es \<Rightarrow> es | None \<Rightarrow> []) @ [entry]))"

definition print_header :: "ledger \<Rightarrow> string \<Rightarrow> ledger" where
  "print_header s text_arg = s\<lparr>info_logs := info_logs s @ [LogHeader text_arg]\<rparr>"

definition log_info :: "ledger \<Rightarrow> string \<Rightarrow> ledger" where
  "log_info s msg = s\<lparr>info_logs := info_logs s @ [LogInfo msg]\<rparr>"

text \<open>\<open>start_phase\<close> of shop-offers, rfm-offers, lottery-rewards and end-news-double-points.\<close>

definition start_phase :: "ledger \<Rightarrow> string \<Rightarrow> ledger" where
  "start_phase s phase_name =
     print_header (s\<lparr>current_phase := phase_name\<rparr>) (''PHASE: '' @ phase_name)"

text \<open>\<open>a / b\<close> on two integers, the quotient taken exactly.\<close>

definition py_true_div :: "int \<Rightarrow> int \<Rightarrow> exn + rat" where
  "py_true_div a b = (if b = 0 then Inl ZeroDivisionError else Inr (of_int a / of_int b))"

text \<open>
  The two loading methods, the same in all six scripts. What reading and parsing the file
  at a path gives is an input: the parsed content, or the exception that \<open>open\<close>,
  \<open>json.load\<close> or \<open>csv.DictReader\<close> raised. \<open>log_error\<close> is called without a subject.
\<close>

definition load_json :: "(string \<Rightarrow> exn + json) \<Rightarrow> ledger \<Rightarrow> string \<Rightarrow> json \<times> ledger" where
  "load_json read_json s file_path =
     (case read_json file_path of
        Inr data \<Rightarrow> (data, log_info s (''JSON file '' @ file_path @ '' loaded''))
      | Inl e \<Rightarrow>
          (JObj [],
           s\<lparr>info_logs := info_logs s @ [LogError JNull (''Error loading JSON file '' @ file_path)],
              errors := errors s @ [Text (''Error loading JSON file '' @ file_path)]\<rparr>))"

definition load_csv ::
  "(string \<Rightarrow> exn + row list) \<Rightarrow> ledger \<Rightarrow> string \<Rightarrow> row list \<times> ledger" where
  "load_csv read_csv s file_path =
     (case read_csv file_path of
        Inr data \<Rightarrow> (data, log_info s (''CSV file '' @ file_path @ '' loaded''))
      | Inl e \<Rightarrow>
          ([],
           s\<lparr>info_logs := info_logs s @ [LogError JNull (''Error loading CSV file '' @ file_path)],
              errors := errors s @ [Text (''Error loading CSV file '' @ file_path)]\<rparr>))"

subsection \<open>shop-offers, rfm-offers, quests-weekly, main-reward-lines\<close>

text \<open>
  \<open>log_check\<close>, \<open>log_warning\<close> and \<open>log_error\<close> of these four scripts are the same code up
  to the label put before the subject in the message text (Action, Complexity, or none)
  and the console output. The subject key is the first argument of \<open>log_check\<close> and the
  optional second argument of the other two (\<open>JNull\<close> is Python's \<open>None\<close>).
\<close>

definition log_check ::
  "ledger \<Rightarrow> json \<Rightarrow> string \<Rightarrow> bool \<Rightarrow> json \<Rightarrow> json \<Rightarrow> json \<Rightarrow> json \<Rightarrow> ledger" where
  "log_check s action_id check_name result expected actual details check_tag =
     (let s1 = s\<lparr>total_checks := total_checks s + 1\<rparr> in
      if result then
        (let s2 = s1\<lparr>passed_checks := passed_checks s1 + 1\<rparr>
         in s2\<lparr>info_logs := info_logs s2 @ [LogCheckOk action_id check_name expected actual]\<rparr>)
      else
        (let s2 = s1\<lparr>failed_checks := failed_checks s1 + 1\<rparr>;
             error_details = [(''check'', JStr check_name), (''expected'', expected),
                              (''actual'', actual), (''details'', details), (''tag'', check_tag)];
             s3 = s2\<lparr>subject_errors := append_entry (subject_errors s2) action_id error_details\<rparr>;
             s4 = s3\<lparr>errors := errors s3 @ [CheckMessage action_id check_name expected actual details]\<rparr>
         in s4\<lparr>info_logs := info_logs s4 @ [LogCheckFail action_id check_name expected actual]\<rparr>))"

definition log_warning :: "ledger \<Rightarrow> string \<Rightarrow> json \<Rightarrow> ledger" where
  "log_warning s msg action_id =
     (let s1 = s\<lparr>warning_checks := warning_checks s + 1\<rparr>;
          s2 = (if action_id \<noteq> JNull
                then s1\<lparr>subject_errors := append_entry (subject_errors s1) action_id
                       [(''check'', JStr ''warning''), (''expected'', JNull), (''actual'', JNull),
                        (''details'', JStr msg), (''tag'', JStr ''WARNING'')]\<rparr>
                else s1);
          s3 = s2\<lparr>info_logs := info_logs s2 @ [LogWarning action_id msg]\<rparr>
      in s3\<lparr>warnings := warnings s3 @ [msg]\<rparr>)"

definition log_error :: "ledger \<Rightarrow> string \<Rightarrow> json \<Rightarrow> ledger" where
  "log_error s msg action_id =
     (let s1 = (if action_id \<noteq> JNull
                then s\<lparr>subject_errors := append_entry (subject_errors s) action_id
                       [(''check'', JStr ''error''), (''expected'', JNull), (''actual'', JNull),
                        (''details'', JStr msg), (''tag'', JStr ''ERROR'')]\<rparr>
                else s);
          s2 = s1\<lparr>info_logs := info_logs s1 @ [LogError action_id msg]\<rparr>
      in s2\<lparr>errors := errors s2 @ [Text msg]\<rparr>)"

text \<open>
  A run of a validator touches the ledger only through these five methods. A run is
  therefore a sequence of calls, each with its arguments.
\<close>

datatype event =
    Check json string bool json json json json
  | Warn string json
  | Err string json
  | Info string
  | Header string

fun apply_event :: "ledger \<Rightarrow> event \<Rightarrow> ledger" where
  "apply_event s (Check k n r e a d t) = log_check s k n r e a d t"
| "apply_event s (Warn m k) = log_warning s m k"
| "apply_event s (Err m k) = log_error s m k"
| "apply_event s (Info m) = log_info s m"
| "apply_event s (Header m) = print_header s m"

definition run_events :: "ledger \<Rightarrow> event list \<Rightarrow> ledger" where
  "run_events s evs = foldl apply_event s evs"

text \<open>What a call puts into the per-subject map under key \<open>k\<close>: the grouped view of a run.\<close>

fun entry_of :: "json \<Rightarrow> event \<Rightarrow> (string \<times> json) list list" where
  "entry_of k (Check k' n r e a d t) =
     (if \<not> r \<and> k' = k
      then [[(''check'', JStr n), (''expected'', e), (''actual'', a), (''details'', d), (''tag'', t)]]
      else [])"
| "entry_of k (Warn m k') =
     (if k' \<noteq> JNull \<and> k' = k
      then [[(''check'', JStr ''warning''), (''expected'', JNull), (''actual'', JNull),
             (''details'', JStr m), (''tag'', JStr ''WARNING'')]]
      else [])"
| "entry_of k (Err m k') =
     (if k' \<noteq> JNull \<and> k' = k
      then [[(''check'', JStr ''error''), (''expected'', JNull), (''actual'', JNull),
             (''details'', JStr m), (''tag'', JStr ''ERROR'')]]
      else [])"
| "entry_of k (Info m) = []"
| "entry_of k (Header m) = []"

definition entries_for :: "json \<Rightarrow> event list \<Rightarrow> (string \<times> json) list list" where
  "entries_for k evs = concat (map (entry_of k) evs)"

fun is_check :: "event \<Rightarrow> bool" where
  "is_check (Check k n r e a d t) = True"
| "is_check _ = False"

fun is_passed :: "event \<Rightarrow> bool" where
  "is_passed (Check k n r e a d t) = r"
| "is_passed _ = False"

fun is_failed :: "event \<Rightarrow> bool" where
  "is_failed (Check k n r e a d t) = (\<not> r)"
| "is_failed _ = False"

fun is_warning :: "event \<Rightarrow> bool" where
  "is_warning (Warn m k) = True"
| "is_warning _ = False"

fun warning_text :: "event \<Rightarrow> string list" where
  "warning_text (Warn m k) = [m]"
| "warning_text _ = []"

section \<open>end-news-double-points\<close>

text \<open>
  \<open>EndNewsDoublePointsValidator\<close>. Its \<open>log_check\<close> stores no tag; its \<open>log_warning\<close> and
  \<open>log_error\<close> take a \<open>check_id\<close> and never use it.
\<close>

definition end_news_log_check ::
  "ledger \<Rightarrow> json \<Rightarrow> string \<Rightarrow> bool \<Rightarrow> json \<Rightarrow> json \<Rightarrow> json \<Rightarrow> ledger" where
  "end_news_log_check s check_id check_name result expected actual details =
     (let s1 = s\<lparr>total_checks := total_checks s + 1\<rparr> in
      if result then
        (let s2 = s1\<lparr>passed_checks := passed_checks s1 + 1\<rparr>
         in s2\<lparr>info_logs := info_logs s2 @ [LogCheckOk check_id check_name expected actual]\<rparr>)
      else
        (let s2 = s1\<lparr>failed_checks := failed_checks s1 + 1\<rparr>;
             error_details = [(''check'', JStr check_name), (''expected'', expected),
                              (''actual'', actual), (''details'', details)];
             s3 = s2\<lparr>subject_errors := append_entry (subject_errors s2) check_id error_details\<rparr>;
             s4 = s3\<lparr>errors := errors s3 @ [CheckMessage check_id check_name expected actual details]\<rparr>
         in s4\<lparr>info_logs := info_logs s4 @ [LogCheckFail check_id check_name expected actual]\<rparr>))"

definition end_news_log_warning :: "ledger \<Rightarrow> string \<Rightarrow> json \<Rightarrow> ledger" where
  "end_news_log_warning s msg check_id =
     (let s1 = s\<lparr>warning_checks := warning_checks s + 1\<rparr>;
          s2 = s1\<lparr>info_logs := info_logs s1 @ [LogWarning JNull msg]\<rparr>
      in s2\<lparr>warnings := warnings s2 @ [msg]\<rparr>)"

definition end_news_log_error :: "ledger \<Rightarrow> string \<Rightarrow> json \<Rightarrow> ledger" where
  "end_news_log_error s msg check_id =
     (let s1 = s\<lparr>info_logs := info_logs s @ [LogError JNull msg]\<rparr>
      in s1\<lparr>errors := errors s1 @ [Text msg]\<rparr>)"

text \<open>
  \<open>__init__\<close>: the four loads and the alias index
  \<open>if 'alias' in req and req['alias']: self.requirements_by_alias[req['alias']] = req\<close>.
\<close>

definition build_requirements_by_alias :: "row list \<Rightarrow> (string \<times> row) list" where
  "build_requirements_by_alias reqs =
     foldl (\<lambda>d req. if dict_has req ''alias'' \<and> row_get req ''alias'' \<noteq> []
                      then dict_set d (row_get req ''alias'') req else d) [] reqs"

definition end_news_init ::
  "(string \<Rightarrow> exn + json) \<Rightarrow> (string \<Rightarrow> exn + row list) \<Rightarrow> string \<Rightarrow> string \<Rightarrow> string \<Rightarrow> string
     \<Rightarrow> bool \<Rightarrow> bool \<Rightarrow> (json \<times> json \<times> json \<times> (string \<times> row) list) \<times> ledger" where
  "end_news_init read_json read_csv end_news_promo_file double_points_promo_file promo_file
       requirements_file verbose_flag json_flag =
     (let s0 = print_header (init_ledger verbose_flag json_flag)
                 ''VALIDATION OF REMINDER WINDOWS AND DOUBLE POINTS'';
          s1 = log_info s0 ''Files to check:'';
          s2 = log_info s1 (''- End news promo: '' @ end_news_promo_file);
          s3 = log_info s2 (''- Double points promo: '' @ double_points_promo_file);
          s4 = log_info s3 (''- Main promo: '' @ promo_file);
          s5 = log_info s4 (''- Requirements: '' @ requirements_file);
          (end_news_promo, s6) = load_json read_json s5 end_news_promo_file;
          (double_points_promo, s7) = load_json read_json s6 double_points_promo_file;
          (promo, s8) = load_json read_json s7 promo_file;
          (requirements, s9) = load_csv read_csv s8 requirements_file
      in ((end_news_promo, double_points_promo, promo, build_requirements_by_alias requirements),
          s9))"

text \<open>
  The generator
  \<open>next((f for f in filters if f.get('type') == 'ActionContain' and
  f.get('conditions', {}).get('actions', {}).get('compare') == cmp), None)\<close>.
\<close>

fun find_filter :: "string \<Rightarrow> json list \<Rightarrow> exn + json option" where
  "find_filter cmp [] = Inr None"
| "find_filter cmp (f # fs) =
     and_then (py_get f ''type'' JNull) (\<lambda>ty.
       if ty = JStr ''ActionContain''
       then and_then (py_get f ''conditions'' (JObj [])) (\<lambda>conditions.
            and_then (py_get conditions ''actions'' (JObj [])) (\<lambda>actions.
            and_then (py_get actions ''compare'' JNull) (\<lambda>compare.
              if compare = JStr cmp then Inr (Some f) else find_filter cmp fs)))
       else find_filter cmp fs)"

text \<open>\<open>f.get('conditions', {}).get('actions', {}).get('items', [])\<close>\<close>

definition filter_items :: "json \<Rightarrow> exn + json" where
  "filter_items f =
     and_then (py_get f ''conditions'' (JObj [])) (\<lambda>conditions.
     and_then (py_get conditions ''actions'' (JObj [])) (\<lambda>actions.
       py_get actions ''items'' (JArr [])))"

text \<open>\<open>','.join(map(str, items)) if isinstance(items, list) else str(items)\<close>\<close>

definition items_str :: "json \<Rightarrow> string" where
  "items_str items = (case items of JArr xs \<Rightarrow> join '','' (map py_str xs) | _ \<Rightarrow> py_str items)"

text \<open>
  \<open>validate_end_news\<close>. The local variable \<open>req_not\<close> is assigned only in the branch where
  a filter with \<open>compare == 'not'\<close> was found; it is \<open>None\<close> here while it is unbound, and
  reading it then raises \<open>UnboundLocalError\<close>.
\<close>

definition validate_end_news ::
  "json \<Rightarrow> json \<Rightarrow> (string \<times> row) list \<Rightarrow> ledger \<Rightarrow> exn + ledger" where
  "validate_end_news end_news_promo promo requirements_by_alias s =
     (case dict_get requirements_by_alias ''end news'' of
        None \<Rightarrow> Inr (end_news_log_error s ''No requirements for end news in the table'' JNull)
      | Some end_news_req \<Rightarrow>
          if end_news_req = []
          then Inr (end_news_log_error s ''No requirements for end news in the table'' JNull)
          else
            let req_from = row_get end_news_req ''from'';
                req_to = row_get end_news_req ''to''
            in
            and_then (py_get end_news_promo ''from'' (JStr [])) (\<lambda>promo_from.
            and_then (py_get end_news_promo ''to'' (JStr [])) (\<lambda>promo_to.
            let s1 = end_news_log_check s (JStr ''end_news_dates_from'')
                       ''Start date of the end news window''
                       (JStr req_from = promo_from) (JStr req_from) promo_from JNull;
                s2 = end_news_log_check s1 (JStr ''end_news_dates_to'')
                       ''End date of the end news window''
                       (JStr req_to = promo_to) (JStr req_to) promo_to JNull
            in
            and_then (py_get end_news_promo ''filters'' (JArr [])) (\<lambda>filters.
            and_then (py_iter filters) (\<lambda>filter_list.
            and_then (find_filter ''any'' filter_list) (\<lambda>any_filter.
            and_then
              (case any_filter of
                 Some f \<Rightarrow>
                   and_then (filter_items f) (\<lambda>items.
                     let any_items_str = items_str items;
                         req_any = row_get end_news_req ''any''
                     in Inr (end_news_log_check s2 (JStr ''end_news_any_condition'')
                               ''Show condition any of the end news window''
                               (req_any = any_items_str) (JStr req_any) (JStr any_items_str) JNull))
               | None \<Rightarrow>
                   Inr (end_news_log_error s2
                          ''No ActionContain filter with compare=any in the end news window'' JNull))
              (\<lambda>s3.
            and_then (find_filter ''not'' filter_list) (\<lambda>not_filter.
            and_then
              (case not_filter of
                 Some f \<Rightarrow>
                   and_then (filter_items f) (\<lambda>items.
                     let not_items_str = items_str items;
                         req_not = row_get end_news_req ''not''
                     in Inr (end_news_log_check s3 (JStr ''end_news_not_condition'')
                               ''Show condition not of the end news window''
                               (req_not = not_items_str) (JStr req_not) (JStr not_items_str) JNull,
                             Some req_not))
               | None \<Rightarrow>
                   Inr (end_news_log_error s3
                          ''No ActionContain filter with compare=not in the end news window'' JNull,
                        None))
              (\<lambda>(s4, req_not).
            and_then (py_get promo ''parameters'' (JObj [])) (\<lambda>parameters.
            and_then (py_get parameters ''seasonPassActions'' (JArr [])) (\<lambda>season_pass_actions.
              if py_truthy season_pass_actions
              then
                let season_pass_actions_str = items_str season_pass_actions
                in (case req_not of
                      None \<Rightarrow> Inl UnboundLocalError
                    | Some r \<Rightarrow>
                        Inr (end_news_log_check s4 (JStr ''end_news_season_pass_actions'')
                               ''Values of not match seasonPassActions''
                               (r = season_pass_actions_str) (JStr r) (JStr season_pass_actions_str)
                               (JStr ''not in the requirements must match seasonPassActions in promo.json'')))
              else Inr (end_news_log_error s4
                          ''Parameter seasonPassActions not found in the main promo'' JNull))))))))))))"

definition validate_double_points ::
  "json \<Rightarrow> json \<Rightarrow> (string \<times> row) list \<Rightarrow> ledger \<Rightarrow> exn + ledger" where
  "validate_double_points double_points_promo promo requirements_by_alias s =
     (case dict_get requirements_by_alias ''double points(2)'' of
        None \<Rightarrow> Inr (end_news_log_error s ''No requirements for double points(2) in the table'' JNull)
      | Some double_points_req \<Rightarrow>
          if double_points_req = []
          then Inr (end_news_log_error s ''No requirements for double points(2) in the table'' JNull)
          else
            let req_from = row_get double_points_req ''from'';
                req_to = row_get double_points_req ''to''
            in
            and_then (py_get double_points_promo ''from'' (JStr [])) (\<lambda>promo_from.
            and_then (py_get double_points_promo ''to'' (JStr [])) (\<lambda>promo_to.
            let s1 = end_news_log_check s (JStr ''double_points_dates_from'')
                       ''Start date of the double points window''
                       (JStr req_from = promo_from) (JStr req_from) promo_from JNull;
                s2 = end_news_log_check s1 (JStr ''double_points_dates_to'')
                       ''End date of the double points window''
                       (JStr req_to = promo_to) (JStr req_to) promo_to JNull;
                req_multiplier_date = row_get double_points_req ''MultiplierTurnOn''
            in
            and_then (py_get promo ''parameters'' (JObj [])) (\<lambda>parameters.
            and_then (py_get parameters ''promotionAwardMultiplierTurnOn'' (JStr []))
              (\<lambda>promo_multiplier_date.
            let s3 = (if req_multiplier_date \<noteq> []
                      then end_news_log_check s2 (JStr ''double_points_multiplier_date'')
                             ''Multiplier turn-on date''
                             (JStr req_multiplier_date = promo_multiplier_date)
                             (JStr req_multiplier_date)
                             (py_or promo_multiplier_date (JStr ''Not found in the main promo''))
                             (JStr ''Parameter promotionAwardMultiplierTurnOn in promo.json'')
                      else s2);
                alias = row_get double_points_req ''alias'';
                multiplier_value = (if alias \<noteq> [] then search_paren_digits alias else None)
            in
            and_then (py_get promo ''parameters'' (JObj [])) (\<lambda>parameters2.
            and_then (py_get parameters2 ''promotionAwardMultiplier'' (JStr [])) (\<lambda>multiplier.
            let promo_multiplier_value = py_str multiplier
            in (case multiplier_value of
                  Some mv \<Rightarrow>
                    Inr (end_news_log_check s3 (JStr ''double_points_multiplier_value'')
                           ''Value of the points multiplier''
                           (mv = promo_multiplier_value) (JStr mv)
                           (py_or (JStr promo_multiplier_value) (JStr ''Not found in the main promo''))
                           (JStr ''Parameter promotionAwardMultiplier in promo.json''))
                | None \<Rightarrow>
                    Inr (end_news_log_warning s3
                           ''Could not extract the multiplier from the alias double points(2)''
                           JNull)))))))))"

text \<open>
  \<open>validate_items_to_cash_exchange\<close>: the exact alias first, then the first alias that
  contains \<open>itemsToCashExchange\<close>.
\<close>

definition find_exchange_req :: "(string \<times> row) list \<Rightarrow> row option" where
  "find_exchange_req requirements_by_alias =
     (case dict_get requirements_by_alias ''itemsToCashExchange(15)'' of
        Some r \<Rightarrow> if r \<noteq> [] then Some r
                  else map_option snd
                         (find (\<lambda>(alias, req). alias \<noteq> [] \<and> contains_str ''itemsToCashExchange'' alias)
                            requirements_by_alias)
      | None \<Rightarrow> map_option snd
                  (find (\<lambda>(alias, req). alias \<noteq> [] \<and> contains_str ''itemsToCashExchange'' alias)
                     requirements_by_alias))"

definition validate_items_to_cash_exchange ::
  "json \<Rightarrow> (string \<times> row) list \<Rightarrow> ledger \<Rightarrow> exn + ledger" where
  "validate_items_to_cash_exchange promo requirements_by_alias s =
     (case find_exchange_req requirements_by_alias of
        None \<Rightarrow> Inr (end_news_log_error s ''No requirements for itemsToCashExchange in the table'' JNull)
      | Some exchange_req \<Rightarrow>
          if exchange_req = []
          then Inr (end_news_log_error s ''No requirements for itemsToCashExchange in the table'' JNull)
          else
            let alias = row_get exchange_req ''alias'';
                exchange_rate = (if alias \<noteq> [] then search_paren_digits alias else None)
            in
            and_then (py_get promo ''parameters'' (JObj [])) (\<lambda>parameters.
            and_then (py_get parameters ''itemsToCashExchange'' (JStr [])) (\<lambda>rate.
            let promo_exchange_rate = py_str rate
            in (case exchange_rate of
                  Some er \<Rightarrow>
                    Inr (end_news_log_check s (JStr ''items_to_cash_exchange_rate'')
                           ''Cash to points exchange rate''
                           (er = promo_exchange_rate) (JStr er)
                           (py_or (JStr promo_exchange_rate) (JStr ''Not found in the main promo''))
                           (JStr ''Parameter itemsToCashExchange in promo.json''))
                | None \<Rightarrow>
                    Inr (end_news_log_warning s
                           ''Could not extract the exchange rate from the alias for itemsToCashExchange''
                           JNull)))))"

text \<open>\<open>print_summary\<close>: the percentage is computed only when \<open>total > 0\<close>.\<close>

definition end_news_print_summary :: "ledger \<Rightarrow> exn + ledger" where
  "end_news_print_summary s =
     (let s1 = print_header s ''CHECK RESULTS'';
          total = total_checks s1;
          passed = passed_checks s1;
          failed = failed_checks s1;
          warnings_count = warning_checks s1
      in
      and_then (if total > 0 then and_then (py_true_div passed total) (\<lambda>q. Inr (q * 100))
                else Inr 0) (\<lambda>pass_percent.
      let s2 = s1\<lparr>info_logs := info_logs s1
                 @ [LogSummary total passed pass_percent failed warnings_count]\<rparr>;
          s3 = (if errors s2 \<noteq> []
                then foldl (\<lambda>t (i, e). t\<lparr>info_logs := info_logs t @ [LogErrorItem i e]\<rparr>)
                       (s2\<lparr>info_logs := info_logs s2 @ [LogCount ''ERRORS'' (length (errors s2))]\<rparr>)
                       (enumerate 1 (errors s2))
                else s2);
          s4 = (if warnings s3 \<noteq> []
                then foldl (\<lambda>t (i, w). t\<lparr>info_logs := info_logs t @ [LogWarningItem i w]\<rparr>)
                       (s3\<lparr>info_logs := info_logs s3 @ [LogCount ''WARNINGS'' (length (warnings s3))]\<rparr>)
                       (enumerate 1 (warnings s3))
                else s3)
      in Inr s4))"

definition end_news_validate_all ::
  "json \<times> json \<times> json \<times> (string \<times> row) list \<Rightarrow> ledger \<Rightarrow> exn + ledger" where
  "end_news_validate_all docs s =
     (case docs of (end_news_promo, double_points_promo, promo, requirements_by_alias) \<Rightarrow>
        and_then (validate_end_news end_news_promo promo requirements_by_alias
                    (start_phase s ''CHECK OF THE END NEWS REMINDER WINDOW'')) (\<lambda>s1.
        and_then (validate_double_points double_points_promo promo requirements_by_alias
                    (start_phase s1 ''CHECK OF THE DOUBLE POINTS WINDOW'')) (\<lambda>s2.
        and_then (validate_items_to_cash_exchange promo requirements_by_alias
                    (start_phase s2 ''CHECK OF THE CASH TO POINTS EXCHANGE RATE'')) (\<lambda>s3.
          end_news_print_summary s3))))"

text \<open>\<open>main\<close> up to the end of \<open>validate_all\<close>: construction, then the three phases and the summary.\<close>

definition end_news_run ::
  "(string \<Rightarrow> exn + json) \<Rightarrow> (string \<Rightarrow> exn + row list) \<Rightarrow> string \<Rightarrow> string \<Rightarrow> string \<Rightarrow> string
     \<Rightarrow> bool \<Rightarrow> bool \<Rightarrow> exn + ledger" where
  "end_news_run read_json read_csv end_news_promo_file double_points_promo_file promo_file
       requirements_file verbose_flag json_flag =
     (case end_news_init read_json read_csv end_news_promo_file double_points_promo_file promo_file
             requirements_file verbose_flag json_flag of
        (docs, s) \<Rightarrow> end_news_validate_all docs s)"

section \<open>Building the id-keyed indices\<close>

text \<open>
  \<open>int(s)\<close> on a string: white space around the literal is dropped, a sign may lead, and
  single underscores may stand between digits. Anything else raises \<open>ValueError\<close>.
\<close>

fun digits_ok :: "string \<Rightarrow> bool" where
  "digits_ok [] = False"
| "digits_ok [c] = is_digit c"
| "digits_ok (c # d # r) =
     (is_digit c \<and> (if d = CHR ''_'' then digits_ok r else digits_ok (d # r)))"

definition nat_of_digits :: "string \<Rightarrow> nat" where
  "nat_of_digits ds = foldl (\<lambda>n c. 10 * n + (of_char c - 48)) 0 ds"

definition py_int :: "string \<Rightarrow> exn + int" where
  "py_int s =
     (let t = strip s;
          negative = (take 1 t = ''-'');
          body = (if take 1 t = ''-'' \<or> take 1 t = ''+'' then drop 1 t else t)
      in if digits_ok body
         then Inr ((if negative then - 1 else 1) * int (nat_of_digits (filter is_digit body)))
         else Inl ValueError)"

text \<open>\<open>s.isdigit()\<close>\<close>

definition isdigit :: "string \<Rightarrow> bool" where
  "isdigit s = (s \<noteq> [] \<and> (\<forall>c \<in> set s. is_digit c))"

subsection \<open>shop-offers\<close>

text \<open>
  \<open>ShopOffersValidator.__init__\<close>, the loop that fills \<open>requirements_by_action_id\<close>:
  a row is looked at only \<open>if 'Action' in req and req['Action']\<close>; \<open>int\<close> is called inside
  \<open>try\<close>, and \<open>except (ValueError, TypeError)\<close> logs a warning without a subject.
\<close>

definition shop_index_step ::
  "(int \<times> row) list \<times> ledger \<Rightarrow> row \<Rightarrow> (int \<times> row) list \<times> ledger" where
  "shop_index_step acc req =
     (case acc of (requirements_by_action_id, s) \<Rightarrow>
        if dict_has req ''Action'' \<and> row_get req ''Action'' \<noteq> []
        then (case py_int (row_get req ''Action'') of
                Inr action_id \<Rightarrow> (dict_set requirements_by_action_id action_id req, s)
              | Inl e \<Rightarrow>
                  (requirements_by_action_id,
                   log_warning s (''Invalid Action ID in requirements: '' @ row_get req ''Action'')
                     JNull))
        else (requirements_by_action_id, s))"

definition shop_requirements_by_action_id ::
  "row list \<Rightarrow> ledger \<Rightarrow> (int \<times> row) list \<times> ledger" where
  "shop_requirements_by_action_id requirements s = foldl shop_index_step ([], s) requirements"

subsection \<open>quests-weekly\<close>

text \<open>
  \<open>QuestsValidator.__init__\<close>: \<open>complexity_ids\<close> (week to ids), \<open>all_complexity_ids\<close> and
  \<open>complexity_details\<close>. \<open>int(req['complexity'])\<close> stands outside any \<open>try\<close>. The week
  column is named by the Russian word for week; the constant holds its UTF-8 bytes.
\<close>

definition week_column :: string where
  "week_column = [CHR 0xD0, CHR 0x9D, CHR 0xD0, CHR 0xB5, CHR 0xD0, CHR 0xB4,
                  CHR 0xD0, CHR 0xB5, CHR 0xD0, CHR 0xBB, CHR 0xD1, CHR 0x8F]"

fun quests_complexity_ids ::
  "(string \<times> int list) list \<Rightarrow> row list \<Rightarrow> exn + (string \<times> int list) list" where
  "quests_complexity_ids complexity_ids [] = Inr complexity_ids"
| "quests_complexity_ids complexity_ids (req # reqs) =
     (if dict_has req ''complexity'' \<and> row_get req ''complexity'' \<noteq> [] \<and> dict_has req week_column
      then and_then (py_int (row_get req ''complexity'')) (\<lambda>complexity_id.
             let week = row_get req week_column;
                 d1 = (if dict_has complexity_ids week then complexity_ids
                       else dict_set complexity_ids week [])
             in quests_complexity_ids
                  (dict_set d1 week
                     ((case dict_get d1 week of Some ids \<Rightarrow> ids | None \<Rightarrow> []) @ [complexity_id]))
                  reqs)
      else quests_complexity_ids complexity_ids reqs)"

definition quests_all_complexity_ids :: "(string \<times> int list) list \<Rightarrow> int list" where
  "quests_all_complexity_ids complexity_ids = concat (map snd complexity_ids)"

fun quests_complexity_details :: "(int \<times> row) list \<Rightarrow> row list \<Rightarrow> exn + (int \<times> row) list" where
  "quests_complexity_details complexity_details [] = Inr complexity_details"
| "quests_complexity_details complexity_details (req # reqs) =
     (if dict_has req ''complexity'' \<and> row_get req ''complexity'' \<noteq> []
      then and_then (py_int (row_get req ''complexity'')) (\<lambda>complexity_id.
             quests_complexity_details (dict_set complexity_details complexity_id req) reqs)
      else quests_complexity_details complexity_details reqs)"

subsection \<open>main-reward-lines\<close>

text \<open>
  \<open>SeasonPassValidator.__init__\<close>: the dict comprehension
  \<open>{int(req[col]): req for req in self.requirements if col in req and req[col]}\<close>, with
  \<open>col\<close> being \<open>action_free\<close> for \<open>free_actions\<close> and \<open>action_paid\<close> for \<open>paid_actions\<close>.
\<close>

fun season_pass_actions_index ::
  "string \<Rightarrow> (int \<times> row) list \<Rightarrow> row list \<Rightarrow> exn + (int \<times> row) list" where
  "season_pass_actions_index col acc [] = Inr acc"
| "season_pass_actions_index col acc (req # reqs) =
     (if dict_has req col \<and> row_get req col \<noteq> []
      then and_then (py_int (row_get req col)) (\<lambda>action_id.
             season_pass_actions_index col (dict_set acc action_id req) reqs)
      else season_pass_actions_index col acc reqs)"

definition free_actions :: "row list \<Rightarrow> exn + (int \<times> row) list" where
  "free_actions requirements = season_pass_actions_index ''action_free'' [] requirements"

definition paid_actions :: "row list \<Rightarrow> exn + (int \<times> row) list" where
  "paid_actions requirements = season_pass_actions_index ''action_paid'' [] requirements"

text \<open>The rows whose \<open>Action\<close> cell is non-empty and is read by \<open>int\<close>, or is not.\<close>

definition has_action :: "row \<Rightarrow> bool" where
  "has_action req = (dict_has req ''Action'' \<and> row_get req ''Action'' \<noteq> [])"

definition bad_action :: "row \<Rightarrow> bool" where
  "bad_action req = (has_action req \<and> isl (py_int (row_get req ''Action'')))"

definition good_action :: "int \<Rightarrow> row \<Rightarrow> bool" where
  "good_action i req = (has_action req \<and> py_int (row_get req ''Action'') = Inr i)"

section \<open>Award checks\<close>

text \<open>\<open>v == n\<close> for a JSON value and an integer: \<open>True == 1\<close> and \<open>False == 0\<close> hold in Python.\<close>

fun py_eq_int :: "json \<Rightarrow> int \<Rightarrow> bool" where
  "py_eq_int (JInt i) n = (i = n)"
| "py_eq_int (JBool b) n = ((if b then 1 else 0) = n)"
| "py_eq_int _ n = False"

text \<open>\<open>s.replace(old, new)\<close> for a non-empty \<open>old\<close>: leftmost occurrences, not overlapping.\<close>

fun replace_from :: "string \<Rightarrow> string \<Rightarrow> nat \<Rightarrow> string \<Rightarrow> string" where
  "replace_from old new k [] = []"
| "replace_from old new (Suc k) (c # s) = replace_from old new k s"
| "replace_from old new 0 (c # s) =
     (if old \<noteq> [] \<and> take (length old) (c # s) = old
      then new @ replace_from old new (length old - 1) s
      else c # replace_from old new 0 s)"

definition replace_all :: "string \<Rightarrow> string \<Rightarrow> string \<Rightarrow> string" where
  "replace_all old new s = replace_from old new 0 s"

text \<open>A \<open>for\<close> loop whose body may raise: the exception ends the loop.\<close>

fun for_each :: "'a list \<Rightarrow> ('a \<Rightarrow> ledger \<Rightarrow> exn + ledger) \<Rightarrow> ledger \<Rightarrow> exn + ledger" where
  "for_each [] body s = Inr s"
| "for_each (x # xs) body s = and_then (body x s) (for_each xs body)"

subsection \<open>quests-weekly: \<open>validate_quest_awards\<close>\<close>

text \<open>
  The search \<open>for award in awards: if award.get('itemId') == item_id: ...; break\<close>, giving
  the \<open>count\<close> of the first match (\<open>award.get('count')\<close>, \<open>None\<close> when the key is absent).
\<close>

fun find_quest_award :: "int \<Rightarrow> json list \<Rightarrow> exn + json option" where
  "find_quest_award item_id [] = Inr None"
| "find_quest_award item_id (award # rest) =
     and_then (py_get award ''itemId'' JNull) (\<lambda>award_item_id.
       if py_eq_int award_item_id item_id
       then and_then (py_get award ''count'' JNull) (\<lambda>award_count. Inr (Some award_count))
       else find_quest_award item_id rest)"

text \<open>
  The block for one award item. The script has it twice, for \<open>count(17909)\<close> (lines
  497-532) and for \<open>count(17908)\<close> (lines 535-570); the two differ in the item id only.
  The presence check is logged first, the count check only when the award was found.
\<close>

definition quest_award_check :: "ledger \<Rightarrow> int \<Rightarrow> json \<Rightarrow> row \<Rightarrow> int \<Rightarrow> exn + ledger" where
  "quest_award_check s complexity_id awards req_details item_id =
     (let req_count = row_get req_details (''count('' @ str_of_int item_id @ '')'')
      in if req_count \<noteq> [] \<and> isdigit req_count
         then
           and_then (py_int req_count) (\<lambda>req_count_int.
           and_then (py_iter awards) (\<lambda>award_list.
           and_then (find_quest_award item_id award_list) (\<lambda>found.
             let s1 = log_check s (JInt complexity_id)
                        (''Award itemId: '' @ str_of_int item_id @ '' present in the quest'')
                        (found \<noteq> None)
                        (JStr ''Present'')
                        (JStr (if found \<noteq> None then ''Present'' else ''Absent''))
                        (JStr (''Award itemId: '' @ str_of_int item_id @ '' must be present in the quest''))
                        (JStr (''AWARD_'' @ str_of_int item_id @ ''_PRESENCE''))
             in (case found of
                   Some award_count \<Rightarrow>
                     Inr (log_check s1 (JInt complexity_id)
                            (''Count of award itemId: '' @ str_of_int item_id @ '' matches'')
                            (py_eq_int award_count req_count_int)
                            (JInt req_count_int)
                            award_count
                            (JStr ''The award count must match the one in requirements'')
                            (JStr (''AWARD_'' @ str_of_int item_id @ ''_COUNT'')))
                 | None \<Rightarrow> Inr s1))))
         else Inr s)"

text \<open>\<open>complexity_id in self.complexity_to_quest\<close> and \<open>self.complexity_to_quest[complexity_id]\<close>:
  the keys come from the \<open>exercises.list\<close> arrays of promo.json.\<close>

definition quest_of_complexity :: "(json \<times> json) list \<Rightarrow> int \<Rightarrow> json option" where
  "quest_of_complexity complexity_to_quest complexity_id =
     map_option snd (find (\<lambda>(k, q). py_eq_int k complexity_id) complexity_to_quest)"

definition validate_quest_awards ::
  "(json \<times> json) list \<Rightarrow> (json \<times> json) list \<Rightarrow> (int \<times> row) list \<Rightarrow> int list \<Rightarrow> ledger
     \<Rightarrow> exn + ledger" where
  "validate_quest_awards complexity_to_quest promo_quests complexity_details all_complexity_ids s =
     for_each all_complexity_ids
       (\<lambda>complexity_id t.
          case quest_of_complexity complexity_to_quest complexity_id of
            None \<Rightarrow>
              Inr (log_warning t
                     (''Complexity '' @ str_of_int complexity_id
                        @ '' is not linked to a quest in the promo, award check skipped'')
                     (JInt complexity_id))
          | Some quest_id \<Rightarrow>
              (case dict_get promo_quests quest_id of
                 None \<Rightarrow>
                   Inr (log_warning t
                          (''No quest found for complexity '' @ str_of_int complexity_id)
                          (JInt complexity_id))
               | Some quest \<Rightarrow>
                   if \<not> py_truthy quest
                   then Inr (log_warning t
                               (''No quest found for complexity '' @ str_of_int complexity_id)
                               (JInt complexity_id))
                   else
                     and_then (py_get quest ''awards'' (JObj [])) (\<lambda>quest_awards.
                     and_then (py_get quest_awards ''custom'' (JArr [])) (\<lambda>awards.
                     let req_details = (case dict_get complexity_details complexity_id of
                                          Some r \<Rightarrow> r | None \<Rightarrow> [])
                     in and_then (quest_award_check t complexity_id awards req_details 17909) (\<lambda>t1.
                          quest_award_check t1 complexity_id awards req_details 17908)))))
       (log_info s ''Checking quest awards between requirements.csv and promo.json'')"

subsection \<open>shop-offers: \<open>validate_action_rewards\<close>\<close>

text \<open>
  The search \<open>if award.get('type') == 'item' and award.get('itemId') == item_id\<close>, giving
  \<open>award.get('count', 0)\<close> of the first match.
\<close>

fun find_item_award :: "int \<Rightarrow> json list \<Rightarrow> exn + json option" where
  "find_item_award item_id [] = Inr None"
| "find_item_award item_id (award # rest) =
     and_then (py_get award ''type'' JNull) (\<lambda>award_type.
       if award_type = JStr ''item''
       then and_then (py_get award ''itemId'' JNull) (\<lambda>award_item_id.
              if py_eq_int award_item_id item_id
              then and_then (py_get award ''count'' (JInt 0)) (\<lambda>actual_count. Inr (Some actual_count))
              else find_item_award item_id rest)
       else find_item_award item_id rest)"

text \<open>
  The body of \<open>for column, value in req.items()\<close> for the award columns (lines 331-369):
  one \<open>log_check\<close> whose result is \<open>found and actual_count == expected_count\<close>.
\<close>

definition shop_award_check :: "ledger \<Rightarrow> int \<Rightarrow> json \<Rightarrow> string \<Rightarrow> string \<Rightarrow> exn + ledger" where
  "shop_award_check s action_id awards column cell =
     (if cell = [] \<or> \<not> startswith column ''Award_'' then Inr s
      else
        let parts = split_on CHR ''('' column
        in if length parts \<noteq> 2
           then Inr (log_warning s (''Wrong format of the award column: '' @ column) (JInt action_id))
           else
             let item_type = replace_all ''Award_'' [] (parts ! 0);
                 item_id_str = replace_all '')'' [] (parts ! 1)
             in (case (py_int item_id_str, py_int cell) of
                   (Inr item_id, Inr expected_count) \<Rightarrow>
                     and_then (py_iter awards) (\<lambda>award_list.
                     and_then (find_item_award item_id award_list) (\<lambda>found.
                       Inr (log_check s (JInt action_id)
                              (''Award '' @ str_of_int item_id @ '' ('' @ item_type @ '') in the action'')
                              (case found of
                                 Some actual_count \<Rightarrow> py_eq_int actual_count expected_count
                               | None \<Rightarrow> False)
                              (JInt expected_count)
                              (case found of
                                 Some actual_count \<Rightarrow> actual_count
                               | None \<Rightarrow> JStr ''Not found'')
                              JNull
                              (JStr ''AWARD_CHECK''))))
                 | _ \<Rightarrow>
                     Inr (log_warning s (''Wrong award value: '' @ cell @ '' for '' @ column)
                            (JInt action_id))))"

text \<open>The body of the second loop, for the \<open>NeedResources(id)\<close> columns (lines 374-411).\<close>

definition shop_need_resource_check ::
  "ledger \<Rightarrow> int \<Rightarrow> json \<Rightarrow> string \<Rightarrow> string \<Rightarrow> exn + ledger" where
  "shop_need_resource_check s action_id need_resources column cell =
     (if cell = [] \<or> \<not> startswith column ''NeedResources'' then Inr s
      else
        let parts = split_on CHR ''('' column
        in if length parts \<noteq> 2
           then Inr (log_warning s (''Wrong format of the resource column: '' @ column)
                       (JInt action_id))
           else
             let item_id_str = replace_all '')'' [] (parts ! 1)
             in (case (py_int item_id_str, py_int cell) of
                   (Inr item_id, Inr expected_count) \<Rightarrow>
                     and_then (py_iter need_resources) (\<lambda>resource_list.
                     and_then (find_item_award item_id resource_list) (\<lambda>found.
                       Inr (log_check s (JInt action_id)
                              (''Needed resource '' @ str_of_int item_id @ '' in the action'')
                              (case found of
                                 Some actual_count \<Rightarrow> py_eq_int actual_count expected_count
                               | None \<Rightarrow> False)
                              (JInt expected_count)
                              (case found of
                                 Some actual_count \<Rightarrow> actual_count
                               | None \<Rightarrow> JStr ''Not found'')
                              JNull
                              (JStr ''NEED_RESOURCE_CHECK''))))
                 | _ \<Rightarrow>
                     Inr (log_warning s (''Wrong resource value: '' @ cell @ '' for '' @ column)
                            (JInt action_id))))"

definition shop_validate_action_rewards ::
  "(int \<times> row) list \<Rightarrow> (int \<times> json) list \<Rightarrow> ledger \<Rightarrow> exn + ledger" where
  "shop_validate_action_rewards requirements_by_action_id actions_by_id s =
     for_each requirements_by_action_id
       (\<lambda>(action_id, req) t.
          let alias = (case map_of req ''alias'' of Some a \<Rightarrow> a | None \<Rightarrow> ''Unknown'')
          in case dict_get actions_by_id action_id of
               None \<Rightarrow>
                 Inr (log_warning t
                        (''Skipping award check for missing action '' @ str_of_int action_id
                           @ '' ('' @ alias @ '')'')
                        (JInt action_id))
             | Some action \<Rightarrow>
                 and_then (py_get action ''awards'' (JArr [])) (\<lambda>awards.
                 and_then (for_each req
                             (\<lambda>(column, cell) u. shop_award_check u action_id awards column cell) t)
                   (\<lambda>t1.
                 and_then (py_get action ''needResources'' (JArr [])) (\<lambda>need_resources.
                   for_each req
                     (\<lambda>(column, cell) u.
                        shop_need_resource_check u action_id need_resources column cell) t1))))
       (start_phase s ''CHECK OF AWARDS IN ACTIONS'')"

section \<open>rfm-offers: the segments check\<close>

text \<open>
  \<open>k in v\<close> and \<open>v[k]\<close> for a string key: on a dict the key test and the lookup; on a list
  membership, on a string the substring test, and indexing either with a string raises.
\<close>

fun py_contains :: "json \<Rightarrow> string \<Rightarrow> exn + bool" where
  "py_contains (JObj kvs) k = Inr (map_of kvs k \<noteq> None)"
| "py_contains (JArr xs) k = Inr (JStr k \<in> set xs)"
| "py_contains (JStr s) k = Inr (contains_str k s)"
| "py_contains _ k = Inl TypeError"

fun py_index :: "json \<Rightarrow> string \<Rightarrow> exn + json" where
  "py_index (JObj kvs) k = (case map_of kvs k of Some v \<Rightarrow> Inr v | None \<Rightarrow> Inl KeyError)"
| "py_index _ k = Inl TypeError"

text \<open>\<open>[segment.strip() for segment in s.split(',') if segment.strip()]\<close>\<close>

definition parse_segments :: "string \<Rightarrow> string list" where
  "parse_segments s = [strip segment. segment \<leftarrow> split_on CHR '','' s, strip segment \<noteq> []]"

text \<open>
  \<open>expected_segments == actual_segments\<close> after \<open>expected_segments.sort()\<close> and
  \<open>actual_segments.sort()\<close>, both lists parsed as above from the two comma-separated texts.
\<close>

definition segments_equal :: "string \<Rightarrow> string \<Rightarrow> bool" where
  "segments_equal expected_text actual_text =
     (sort (parse_segments expected_text) = sort (parse_segments actual_text))"

text \<open>
  The loop over \<open>settingsByConditions\<close> (lines 511-517): the text of the first entry whose
  \<open>conditions\<close> hold the key \<open>isNotInOneOfRFM30Segments\<close>; \<open>split\<close> needs a string.
\<close>

fun find_segment_condition :: "json list \<Rightarrow> exn + string option" where
  "find_segment_condition [] = Inr None"
| "find_segment_condition (condition_setting # rest) =
     and_then (py_get condition_setting ''conditions'' (JObj [])) (\<lambda>conditions.
     and_then (py_contains conditions ''isNotInOneOfRFM30Segments'') (\<lambda>present.
       if present
       then and_then (py_index conditions ''isNotInOneOfRFM30Segments'') (\<lambda>v.
              case v of JStr actual_text \<Rightarrow> Inr (Some actual_text) | _ \<Rightarrow> Inl AttributeError)
       else find_segment_condition rest))"

text \<open>Step 4 of \<open>validate_rfm_files\<close> (lines 504-531) for one offer.\<close>

definition segments_check :: "ledger \<Rightarrow> string \<Rightarrow> row \<Rightarrow> json \<Rightarrow> exn + ledger" where
  "segments_check s offer_name req rfm_config =
     (let expected_segments = parse_segments (row_get req ''segment'')
      in
      and_then (py_get rfm_config ''parameters'' (JObj [])) (\<lambda>parameters.
      and_then (py_get parameters ''settingsByConditions'' (JArr [])) (\<lambda>settings_by_conditions.
      and_then (py_iter settings_by_conditions) (\<lambda>settings_list.
      and_then (find_segment_condition settings_list) (\<lambda>found.
        Inr (log_check s (JStr offer_name) ''Segments in settingsByConditions''
               (case found of
                  Some actual_text \<Rightarrow> segments_equal (row_get req ''segment'') actual_text
                | None \<Rightarrow> False)
               (JStr (join '','' (sort expected_segments)))
               (JStr (case found of
                        Some actual_text \<Rightarrow> join '','' (sort (parse_segments actual_text))
                      | None \<Rightarrow> ''Not found''))
               JNull
               (JStr ''SEGMENTS_CHECK'')))))))"

section \<open>lottery-rewards\<close>

text \<open>
  \<open>LotteryRewardsValidator\<close>. \<open>log_check\<close> takes the subject as its last, optional
  argument \<open>check_id\<close>; \<open>log_warning\<close> and \<open>log_error\<close> enter a short dict into the map when
  \<open>check_id\<close> is given.
\<close>

definition lottery_log_check ::
  "ledger \<Rightarrow> string \<Rightarrow> bool \<Rightarrow> json \<Rightarrow> json \<Rightarrow> json \<Rightarrow> json \<Rightarrow> ledger" where
  "lottery_log_check s check_name result expected actual details check_id =
     (let s1 = s\<lparr>total_checks := total_checks s + 1\<rparr> in
      if result then
        (let s2 = s1\<lparr>passed_checks := passed_checks s1 + 1\<rparr>
         in s2\<lparr>info_logs := info_logs s2 @ [LogCheckOk check_id check_name expected actual]\<rparr>)
      else
        (let s2 = s1\<lparr>failed_checks := failed_checks s1 + 1\<rparr>;
             error_details = [(''check'', JStr check_name), (''expected'', expected),
                              (''actual'', actual), (''details'', details)];
             s3 = s2\<lparr>subject_errors := append_entry (subject_errors s2) check_id error_details\<rparr>;
             s4 = s3\<lparr>errors := errors s3 @ [CheckMessage check_id check_name expected actual details]\<rparr>
         in s4\<lparr>info_logs := info_logs s4 @ [LogCheckFail check_id check_name expected actual]\<rparr>))"

definition lottery_log_warning :: "ledger \<Rightarrow> string \<Rightarrow> json \<Rightarrow> ledger" where
  "lottery_log_warning s msg check_id =
     (let s1 = s\<lparr>warning_checks := warning_checks s + 1\<rparr>;
          s2 = s1\<lparr>warnings := warnings s1 @ [msg]\<rparr>;
          s3 = s2\<lparr>info_logs := info_logs s2 @ [LogWarning check_id msg]\<rparr>
      in if check_id \<noteq> JNull
         then s3\<lparr>subject_errors := append_entry (subject_errors s3) check_id
                  [(''check'', JStr ''Warning''), (''details'', JStr msg)]\<rparr>
         else s3)"

definition lottery_log_error :: "ledger \<Rightarrow> string \<Rightarrow> json \<Rightarrow> ledger" where
  "lottery_log_error s msg check_id =
     (let s1 = s\<lparr>errors := errors s @ [Text msg]\<rparr>;
          s2 = s1\<lparr>info_logs := info_logs s1 @ [LogError check_id msg]\<rparr>
      in if check_id \<noteq> JNull
         then s2\<lparr>subject_errors := append_entry (subject_errors s2) check_id
                  [(''check'', JStr ''Error''), (''details'', JStr msg)]\<rparr>
         else s2)"

text \<open>
  \<open>_get_season_pass_actions\<close>: the whole body stands in \<open>try\<close>, and \<open>except Exception\<close> logs
  an error and returns \<open>None\<close>.
\<close>

definition get_season_pass_actions :: "json \<Rightarrow> ledger \<Rightarrow> string option \<times> ledger" where
  "get_season_pass_actions promo s =
     (case and_then (py_get promo ''parameters'' (JObj [])) (\<lambda>params.
             py_get params ''seasonPassActions'' (JArr [])) of
        Inl e \<Rightarrow> (None, lottery_log_error s ''Error while reading the season pass ids'' JNull)
      | Inr season_pass_actions \<Rightarrow>
          if \<not> py_truthy season_pass_actions
          then (None, lottery_log_warning s ''seasonPassActions not found in promo.json'' JNull)
          else (case py_iter season_pass_actions of
                  Inl e \<Rightarrow> (None, lottery_log_error s ''Error while reading the season pass ids'' JNull)
                | Inr ids \<Rightarrow> (Some (join '','' (map py_str ids)), s)))"

text \<open>
  The grouping of the table by \<open>action\<close> (lines 74-91): a row with a non-empty \<open>action\<close>
  cell opens a group, the rows after it without one continue the group, and rows before
  the first group are dropped. \<open>current_action_id\<close> is the empty string while it is
  \<open>None\<close> in the script.
\<close>

fun lottery_group ::
  "(string \<times> row list) list \<Rightarrow> string \<Rightarrow> row list \<Rightarrow> row list \<Rightarrow> (string \<times> row list) list" where
  "lottery_group requirements_by_action_id current_action_id current_group [] =
     (if current_action_id \<noteq> [] \<and> current_group \<noteq> []
      then dict_set requirements_by_action_id current_action_id current_group
      else requirements_by_action_id)"
| "lottery_group requirements_by_action_id current_action_id current_group (req # reqs) =
     (let action_id = strip (row_get req ''action'')
      in if action_id \<noteq> []
         then lottery_group
                (if current_action_id \<noteq> []
                 then dict_set requirements_by_action_id current_action_id current_group
                 else requirements_by_action_id)
                action_id [req] reqs
         else lottery_group requirements_by_action_id current_action_id
                (if current_action_id \<noteq> [] then current_group @ [req] else current_group) reqs)"

text \<open>\<open>actions_by_id\<close>: \<open>if action_id: self.actions_by_id[str(action_id)] = action\<close>.\<close>

fun lottery_actions_by_id ::
  "(string \<times> json) list \<Rightarrow> json list \<Rightarrow> exn + (string \<times> json) list" where
  "lottery_actions_by_id actions_by_id [] = Inr actions_by_id"
| "lottery_actions_by_id actions_by_id (action # rest) =
     and_then (py_get action ''@id'' JNull) (\<lambda>action_id.
       lottery_actions_by_id
         (if py_truthy action_id then dict_set actions_by_id (py_str action_id) action
          else actions_by_id)
         rest)"

text \<open>
  \<open>__init__\<close>. It yields the attributes that the phases read: \<open>promo\<close>,
  \<open>season_pass_actions\<close>, \<open>requirements_by_action_id\<close> and \<open>actions_by_id\<close>.
\<close>

definition lottery_init ::
  "(string \<Rightarrow> exn + json) \<Rightarrow> (string \<Rightarrow> exn + row list) \<Rightarrow> string \<Rightarrow> string \<Rightarrow> string
     \<Rightarrow> bool \<Rightarrow> bool
     \<Rightarrow> exn + ((json \<times> string option \<times> (string \<times> row list) list \<times> (string \<times> json) list) \<times> ledger)" where
  "lottery_init read_json read_csv promo_file requirements_file actions_file verbose_flag json_flag =
     (let s0 = print_header (init_ledger verbose_flag json_flag)
                 ''VALIDATION OF THE SEASONPASS LOTTERY CONFIGURATION'';
          s1 = log_info s0 ''Files to check:'';
          s2 = log_info s1 (''- Promo: '' @ promo_file);
          s3 = log_info s2 (''- Requirements: '' @ requirements_file);
          s4 = log_info s3 (''- Actions: '' @ actions_file);
          (promo, s5) = load_json read_json s4 promo_file;
          (requirements, s6) = load_csv read_csv s5 requirements_file;
          (actions, s7) = load_json read_json s6 actions_file;
          (season_pass_actions, s8) = get_season_pass_actions promo s7;
          s9 = (case season_pass_actions of
                  Some ids \<Rightarrow> if ids \<noteq> [] then log_info s8 (''Season pass ids: '' @ ids) else s8
                | None \<Rightarrow> s8);
          requirements_by_action_id = lottery_group [] [] [] requirements
      in and_then (py_iter actions) (\<lambda>action_list.
         and_then (lottery_actions_by_id [] action_list) (\<lambda>actions_by_id.
           Inr ((promo, season_pass_actions, requirements_by_action_id, actions_by_id), s9))))"

text \<open>\<open>validate_actions_presence\<close>\<close>

definition validate_actions_presence ::
  "json \<Rightarrow> (string \<times> row list) list \<Rightarrow> (string \<times> json) list \<Rightarrow> ledger \<Rightarrow> exn + ledger" where
  "validate_actions_presence promo requirements_by_action_id actions_by_id s =
     (let action_ids = map fst requirements_by_action_id;
          s1 = log_info s (''Actions found in requirements: '' @ join '', '' action_ids)
      in
      and_then
        (for_each action_ids
           (\<lambda>action_id t.
              and_then (py_get promo ''awards'' (JArr [])) (\<lambda>awards.
              and_then (py_iter awards) (\<lambda>award_list.
                let promo_actions = map py_str award_list
                in Inr (lottery_log_check t
                          (''Action '' @ action_id @ '' is present in promo (awards)'')
                          (action_id \<in> set promo_actions)
                          (JStr ''present'')
                          (JStr (if action_id \<in> set promo_actions then ''present'' else ''absent''))
                          JNull
                          (JStr action_id)))))
           s1)
        (\<lambda>s2.
           for_each action_ids
             (\<lambda>action_id t.
                Inr (lottery_log_check t
                       (''Action '' @ action_id @ '' is present in the actions config'')
                       (dict_has actions_by_id action_id)
                       (JStr ''present'')
                       (JStr (if dict_has actions_by_id action_id then ''present'' else ''absent''))
                       JNull
                       (JStr action_id)))
             s2))"

text \<open>\<open>s.lower()\<close> on ASCII letters; only a string has \<open>lower\<close>.\<close>

definition lower :: "string \<Rightarrow> string" where
  "lower s = map (\<lambda>c. if 65 \<le> (of_char c :: nat) \<and> (of_char c :: nat) \<le> 90
                       then char_of ((of_char c :: nat) + 32) else c) s"

fun py_lower :: "json \<Rightarrow> exn + string" where
  "py_lower (JStr s) = Inr (lower s)"
| "py_lower _ = Inl AttributeError"

text \<open>\<open>len(v)\<close>\<close>

fun py_len :: "json \<Rightarrow> exn + nat" where
  "py_len (JArr xs) = Inr (length xs)"
| "py_len (JObj kvs) = Inr (length kvs)"
| "py_len (JStr s) = Inr (length s)"
| "py_len _ = Inl TypeError"

text \<open>The text of one award in the packet listing (lines 303-313).\<close>

definition award_info :: "json \<Rightarrow> exn + string" where
  "award_info award =
     and_then (py_get award ''type'' (JStr [])) (\<lambda>award_type.
     and_then (py_get award ''count'' (JStr [])) (\<lambda>award_count.
     and_then (py_get award ''itemId'' (JStr [])) (\<lambda>award_item_id.
       Inr (''['' @ py_str award_type
              @ (if py_truthy award_count then '', '' @ py_str award_count else [])
              @ (if py_truthy award_item_id then '', ID:'' @ py_str award_item_id else [])
              @ '']''))))"

fun award_infos :: "json list \<Rightarrow> exn + string list" where
  "award_infos [] = Inr []"
| "award_infos (award # rest) =
     and_then (award_info award) (\<lambda>x. and_then (award_infos rest) (\<lambda>xs. Inr (x # xs)))"

text \<open>The listing of the packets, one info line each (lines 299-315).\<close>

fun log_packets :: "nat \<Rightarrow> json list \<Rightarrow> ledger \<Rightarrow> exn + ledger" where
  "log_packets i [] s = Inr s"
| "log_packets i (packet # rest) s =
     and_then (py_get packet ''probability'' (JStr [])) (\<lambda>packet_prob.
     and_then (py_get packet ''alias'' (JStr [])) (\<lambda>packet_alias.
     and_then (py_get packet ''awards'' (JArr [])) (\<lambda>awards.
     and_then (py_iter awards) (\<lambda>award_list.
     and_then (award_infos award_list) (\<lambda>awards_str.
       log_packets (Suc i) rest
         (log_info s (''  Packet #'' @ str_of_nat (i + 1) @ '': prob='' @ py_str packet_prob
                        @ '', alias='' @ py_str packet_alias @ '', awards: ''
                        @ join '', '' awards_str)))))))"

text \<open>
  The inner search over the awards of one packet (lines 333-351): type (case-insensitive),
  count and item id must match where the requirement gives them; an award of type
  \<open>buff\<close> has its id in the field \<open>id\<close>.
\<close>

fun award_matches :: "string \<Rightarrow> string \<Rightarrow> string \<Rightarrow> json list \<Rightarrow> exn + bool" where
  "award_matches item_type count_text item_id [] = Inr False"
| "award_matches item_type count_text item_id (award # rest) =
     and_then (py_get award ''type'' (JStr [])) (\<lambda>award_type.
     and_then (py_get award ''count'' (JStr [])) (\<lambda>award_count_value.
     and_then (py_lower award_type) (\<lambda>award_type_lower.
     and_then (if award_type_lower = ''buff''
               then py_get award ''id'' (JStr [])
               else py_get award ''itemId'' (JStr [])) (\<lambda>award_item_id_value.
       let award_count = py_str award_count_value;
           award_item_id = py_str award_item_id_value;
           type_match = (item_type = [] \<or> award_type_lower = lower item_type);
           count_match = (count_text = [] \<or> award_count = count_text);
           item_id_match = (item_id = [] \<or> award_item_id = item_id)
       in if type_match \<and> count_match \<and> item_id_match then Inr True
          else award_matches item_type count_text item_id rest))))"

text \<open>The outer search over the packets (lines 327-354): only packets of the required probability.\<close>

fun packet_matches :: "string \<Rightarrow> string \<Rightarrow> string \<Rightarrow> string \<Rightarrow> json list \<Rightarrow> exn + bool" where
  "packet_matches item_type count_text item_id probability [] = Inr False"
| "packet_matches item_type count_text item_id probability (packet # rest) =
     and_then (py_get packet ''probability'' (JStr [])) (\<lambda>packet_probability_value.
     and_then (py_get packet ''awards'' (JArr [])) (\<lambda>awards.
       if py_str packet_probability_value = probability
       then and_then (py_iter awards) (\<lambda>award_list.
            and_then (award_matches item_type count_text item_id award_list) (\<lambda>found_packet.
              if found_packet then Inr True
              else packet_matches item_type count_text item_id probability rest))
       else packet_matches item_type count_text item_id probability rest))"

text \<open>The text naming the reward in the check message (lines 357-369).\<close>

definition reward_display :: "string \<Rightarrow> string \<Rightarrow> string \<Rightarrow> string" where
  "reward_display item_type item_id count_text =
     (let d1 = (if item_type \<noteq> [] then ''of type '' @ item_type else []);
          d2 = (if item_id \<noteq> []
                then (if d1 \<noteq> [] then d1 @ '' with ID '' @ item_id else ''with ID '' @ item_id)
                else d1)
      in if count_text \<noteq> []
         then (if d2 \<noteq> [] then d2 @ '' in quantity '' @ count_text
               else ''in quantity '' @ count_text)
         else d2)"

definition validate_actions_content ::
  "(string \<times> row list) list \<Rightarrow> (string \<times> json) list \<Rightarrow> ledger \<Rightarrow> exn + ledger" where
  "validate_actions_content requirements_by_action_id actions_by_id s =
     for_each requirements_by_action_id
       (\<lambda>(action_id, requirements) t.
          case dict_get actions_by_id action_id of
            None \<Rightarrow>
              Inr (lottery_log_error t
                     (''Cannot check the content of action '' @ action_id
                        @ '': it is missing in the config'')
                     (JStr action_id))
          | Some action_config \<Rightarrow>
              let t1 = log_info t (''Checking the content of action '' @ action_id)
              in
              and_then (py_get action_config ''awardPackets'' (JArr [])) (\<lambda>award_packets.
                if \<not> py_truthy award_packets
                then Inr (lottery_log_error t1
                            (''The config of action '' @ action_id @ '' has no awardPackets'')
                            (JStr action_id))
                else
                  and_then (py_len award_packets) (\<lambda>n.
                  let t2 = log_info t1 (''Found '' @ str_of_nat n @ '' award packets for action ''
                                          @ action_id)
                  in
                  and_then (py_iter award_packets) (\<lambda>packet_list.
                  and_then (log_packets 0 packet_list t2) (\<lambda>t3.
                    for_each requirements
                      (\<lambda>req u.
                         let item_type = row_get req ''type'';
                             count_text = row_get req ''count'';
                             item_id = row_get req ''itemId'';
                             probability = row_get req ''probability''
                         in and_then (packet_matches item_type count_text item_id probability
                                        packet_list) (\<lambda>found_packet.
                              Inr (lottery_log_check u
                                     (''Award '' @ reward_display item_type item_id count_text
                                        @ '' in action '' @ action_id @ '' with probability ''
                                        @ probability @ ''%'')
                                     found_packet
                                     (JStr ''found'')
                                     (JStr (if found_packet then ''found'' else ''not found''))
                                     (JStr (''type='' @ item_type @ '', count='' @ count_text
                                              @ '', itemId='' @ item_id @ '', probability=''
                                              @ probability))
                                     (JStr action_id))))
                      t3)))))
       s"

text \<open>\<open>validate_need_action\<close>\<close>

definition validate_need_action ::
  "string option \<Rightarrow> (string \<times> row list) list \<Rightarrow> (string \<times> json) list \<Rightarrow> ledger
     \<Rightarrow> exn + ledger" where
  "validate_need_action season_pass_actions requirements_by_action_id actions_by_id s =
     (if season_pass_actions = None \<or> season_pass_actions = Some []
      then Inr (lottery_log_warning s
                  ''Cannot check needAction: the season pass ids were not found'' JNull)
      else
        for_each (map fst requirements_by_action_id)
          (\<lambda>action_id t.
             case dict_get actions_by_id action_id of
               None \<Rightarrow>
                 Inr (lottery_log_error t
                        (''Cannot check needAction for action '' @ action_id
                           @ '': it is missing in the config'')
                        (JStr action_id))
             | Some action_config \<Rightarrow>
                 and_then (py_get action_config ''needAction'' (JStr [])) (\<lambda>need_action.
                   let t1 = lottery_log_check t
                              (''needAction is present in action '' @ action_id)
                              (py_truthy need_action)
                              (JStr ''Present'')
                              (JStr (if py_truthy need_action then ''Present'' else ''Absent''))
                              JNull
                              (JStr action_id)
                   in if \<not> py_truthy need_action then Inr t1
                      else Inr (lottery_log_check t1
                                  (''needAction in action '' @ action_id
                                     @ '' matches the season pass ids'')
                                  (Some need_action = map_option JStr season_pass_actions)
                                  (case season_pass_actions of Some ids \<Rightarrow> JStr ids | None \<Rightarrow> JNull)
                                  need_action
                                  JNull
                                  (JStr action_id))))
          s)"

text \<open>
  \<open>print_summary\<close> of lottery-rewards (lines 418-455): after the header it returns when
  \<open>json_output\<close> is set; otherwise it prints, and the second and third printed line
  divide \<open>passed\<close> and \<open>failed\<close> by \<open>total\<close> with no test of \<open>total\<close>. Printing changes
  nothing in the ledger.
\<close>

definition lottery_print_summary :: "ledger \<Rightarrow> exn + ledger" where
  "lottery_print_summary s =
     (let s1 = print_header s ''CHECK RESULTS'';
          total = total_checks s1;
          passed = passed_checks s1;
          failed = failed_checks s1
      in if json_output s1 then Inr s1
         else and_then (py_true_div passed total) (\<lambda>passed_share.
              and_then (py_true_div failed total) (\<lambda>failed_share. Inr s1)))"

definition lottery_validate_all ::
  "json \<times> string option \<times> (string \<times> row list) list \<times> (string \<times> json) list \<Rightarrow> ledger
     \<Rightarrow> exn + ledger" where
  "lottery_validate_all docs s =
     (case docs of (promo, season_pass_actions, requirements_by_action_id, actions_by_id) \<Rightarrow>
        and_then (validate_actions_presence promo requirements_by_action_id actions_by_id
                    (start_phase s ''Presence of actions in promo and config'')) (\<lambda>s1.
        and_then (validate_actions_content requirements_by_action_id actions_by_id
                    (start_phase s1 ''Content of actions'')) (\<lambda>s2.
        and_then (validate_need_action season_pass_actions requirements_by_action_id actions_by_id
                    (start_phase s2 ''Parameter needAction'')) (\<lambda>s3.
          lottery_print_summary s3))))"

text \<open>
  \<open>save_report_to_csv\<close> and \<open>save_detailed_log\<close>: the writing stands in \<open>try\<close>. What writing
  the file at a path gives is an input: \<open>None\<close>, or the exception raised.
\<close>

definition lottery_save_report_to_csv :: "(string \<Rightarrow> exn option) \<Rightarrow> ledger \<Rightarrow> string \<Rightarrow> ledger" where
  "lottery_save_report_to_csv write_file s output_file =
     (case write_file output_file of
        None \<Rightarrow> log_info s (''Report saved to '' @ output_file)
      | Some e \<Rightarrow> lottery_log_error s ''Error while saving the report'' JNull)"

definition lottery_save_detailed_log :: "(string \<Rightarrow> exn option) \<Rightarrow> ledger \<Rightarrow> string \<Rightarrow> ledger" where
  "lottery_save_detailed_log write_file s output_file =
     (case write_file output_file of
        None \<Rightarrow> log_info s (''Detailed log saved to '' @ output_file)
      | Some e \<Rightarrow> lottery_log_error s ''Error while saving the log'' JNull)"

text \<open>
  \<open>main\<close>: construction, \<open>validate_all\<close>, the two saves, then
  \<open>sys.exit(1 if validator.stats["failed_checks"] > 0 else 0)\<close>. An exception that nothing
  catches ends the process with a traceback and exit status 1. The result is the exit
  status and, when \<open>sys.exit\<close> was reached, the ledger at that point.
\<close>

definition lottery_main ::
  "(string \<Rightarrow> exn + json) \<Rightarrow> (string \<Rightarrow> exn + row list) \<Rightarrow> (string \<Rightarrow> exn option)
     \<Rightarrow> string \<Rightarrow> string \<Rightarrow> string \<Rightarrow> string \<Rightarrow> string \<Rightarrow> bool \<Rightarrow> bool \<Rightarrow> int \<times> ledger option" where
  "lottery_main read_json read_csv write_file promo_file requirements_file actions_file
       output_file log_file verbose_flag json_flag =
     (case and_then (lottery_init read_json read_csv promo_file requirements_file actions_file
                       verbose_flag json_flag)
             (\<lambda>(docs, s). lottery_validate_all docs s) of
        Inl e \<Rightarrow> (1, None)
      | Inr s1 \<Rightarrow>
          let s2 = lottery_save_report_to_csv write_file s1 output_file;
              s3 = lottery_save_detailed_log write_file s2 log_file
          in (if failed_checks s3 > 0 then 1 else 0, Some s3))"

section \<open>shop-offers: the summary\<close>

text \<open>
  \<open>print_summary\<close> of shop-offers (rfm-offers has the same body): the rate is computed
  only when \<open>total_checks > 0\<close>; four info lines; a second header when a check failed.
\<close>

definition shop_print_summary :: "ledger \<Rightarrow> exn + ledger" where
  "shop_print_summary s =
     (let s1 = print_header s ''FINAL REPORT'';
          total = total_checks s1;
          passed = passed_checks s1;
          failed = failed_checks s1;
          warnings_count = warning_checks s1
      in
      and_then (if total > 0 then and_then (py_true_div passed total) (\<lambda>q. Inr (q * 100))
                else Inr 0) (\<lambda>success_rate.
      let s2 = log_info s1 (''Total checks: '' @ str_of_int total);
          s3 = s2\<lparr>info_logs := info_logs s2 @ [LogPassed passed success_rate]\<rparr>;
          s4 = log_info s3 (''Failed checks: '' @ str_of_int failed);
          s5 = log_info s4 (''Warnings: '' @ str_of_int warnings_count)
      in Inr (if failed > 0 then print_header s5 ''LIST OF ERRORS'' else s5)))"

section \<open>Prices: equality within 0.001\<close>

text \<open>
  A Python \<open>float\<close> is an IEEE 754 binary64 number. A finite one is modelled as the
  rational number it denotes. \<open>float(text)\<close>, \<open>json.load\<close> and every arithmetic operation
  return the binary64 number nearest to the exact result, ties going to the even
  significand: 53 significant bits, and steps of \<open>2^-1074\<close> below \<open>2^-1022\<close>. Results
  of magnitude \<open>2^1024\<close> or more, which Python turns into \<open>inf\<close>, are outside this
  model.
\<close>



definition pow2 :: "int \<Rightarrow> rat" where
  "pow2 e = (if 0 \<le> e then 2 ^ nat e else 1 / 2 ^ nat (- e))"







section \<open>Load failures (end-news-double-points)\<close>

lemma load_json_failure:
  "read_json file_path = Inl e \<Longrightarrow>
     fst (load_json read_json s file_path) = JObj []
     \<and> errors (snd (load_json read_json s file_path))
         = errors s @ [Text (''Error loading JSON file '' @ file_path)]
     \<and> subject_errors (snd (load_json read_json s file_path)) = subject_errors s
     \<and> failed_checks (snd (load_json read_json s file_path)) = failed_checks s"
  by (simp add: load_json_def)

lemma load_csv_failure:
  "read_csv file_path = Inl e \<Longrightarrow>
     fst (load_csv read_csv s file_path) = []
     \<and> errors (snd (load_csv read_csv s file_path))
         = errors s @ [Text (''Error loading CSV file '' @ file_path)]
     \<and> subject_errors (snd (load_csv read_csv s file_path)) = subject_errors s
     \<and> failed_checks (snd (load_csv read_csv s file_path)) = failed_checks s"
  by (simp add: load_csv_def)

text \<open>
  With the end-news promo replaced by the empty dict, a row for \<open>end news\<close> in the table
  and a non-empty \<open>seasonPassActions\<close> in the main promo, \<open>validate_end_news\<close> reads
  \<open>req_not\<close> before any assignment to it.
\<close>

lemma validate_end_news_unbound:
  assumes "dict_get requirements_by_alias ''end news'' = Some req" and "req \<noteq> []"
    and "py_get promo ''parameters'' (JObj []) = Inr parameters"
    and "py_get parameters ''seasonPassActions'' (JArr []) = Inr season_pass_actions"
    and "py_truthy season_pass_actions"
  shows "validate_end_news (JObj []) promo requirements_by_alias s = Inl UnboundLocalError"
  using assms by (simp add: validate_end_news_def and_then_def Let_def)

text \<open>
  C2. The failing run: end-news-promo.json and double-points-promo.json cannot be read,
  promo.json holds \<open>{"parameters": {"seasonPassActions": [101, 102]}}\<close> and the table has
  the row of alias \<open>end news\<close>. Both loads return the empty dict without raising, and
  then the first phase raises \<open>UnboundLocalError\<close>: the second and third phase and the
  summary do not run.
\<close>

theorem end_news_failed_load_aborts_run:
  "end_news_run
     (\<lambda>p. if p = ''promo.json''
          then Inr (JObj [(''parameters'', JObj [(''seasonPassActions'', JArr [JInt 101, JInt 102])])])
          else Inl OSError)
     (\<lambda>p. Inr [[(''alias'', ''end news''), (''from'', ''2024-06-01''), (''to'', ''2024-06-08''),
                 (''any'', ''1''), (''not'', ''101,102'')]])
     ''end-news-promo.json'' ''double-points-promo.json'' ''promo.json'' ''requirements.csv''
     True False
   = Inl UnboundLocalError"
  by code_simp

section \<open>Summary counters\<close>

lemma log_check_counters:
  "total_checks (log_check s k n r e a d t) = total_checks s + 1
   \<and> passed_checks (log_check s k n r e a d t) = passed_checks s + (if r then 1 else 0)
   \<and> failed_checks (log_check s k n r e a d t) = failed_checks s + (if r then 0 else 1)
   \<and> warning_checks (log_check s k n r e a d t) = warning_checks s"
  by (simp add: log_check_def Let_def)

lemma log_warning_counters:
  "total_checks (log_warning s m k) = total_checks s
   \<and> passed_checks (log_warning s m k) = passed_checks s
   \<and> failed_checks (log_warning s m k) = failed_checks s
   \<and> warning_checks (log_warning s m k) = warning_checks s + 1"
  by (simp add: log_warning_def Let_def)

lemma log_error_counters:
  "total_checks (log_error s m k) = total_checks s
   \<and> passed_checks (log_error s m k) = passed_checks s
   \<and> failed_checks (log_error s m k) = failed_checks s
   \<and> warning_checks (log_error s m k) = warning_checks s"
  by (simp add: log_error_def Let_def)

lemma apply_event_counters:
  "total_checks (apply_event s ev) = total_checks s + (if is_check ev then 1 else 0)
   \<and> passed_checks (apply_event s ev) = passed_checks s + (if is_passed ev then 1 else 0)
   \<and> failed_checks (apply_event s ev) = failed_checks s + (if is_failed ev then 1 else 0)
   \<and> warning_checks (apply_event s ev) = warning_checks s + (if is_warning ev then 1 else 0)"
  by (cases ev) (simp_all add: log_check_counters log_warning_counters log_error_counters
      log_info_def print_header_def)

lemma run_events_counters:
  "total_checks (run_events s evs) = total_checks s + int (length (filter is_check evs))
   \<and> passed_checks (run_events s evs) = passed_checks s + int (length (filter is_passed evs))
   \<and> failed_checks (run_events s evs) = failed_checks s + int (length (filter is_failed evs))
   \<and> warning_checks (run_events s evs) = warning_checks s + int (length (filter is_warning evs))"
  unfolding run_events_def
proof (induction evs arbitrary: s)
  case Nil
  then show ?case by simp
next
  case (Cons ev evs)
  show ?case using Cons.IH[of "apply_event s ev"] apply_event_counters[of s ev] by simp
qed

lemma check_partition:
  "length (filter is_check evs) = length (filter is_passed evs) + length (filter is_failed evs)"
proof (induction evs)
  case Nil then show ?case by simp
next
  case (Cons ev evs) then show ?case by (cases ev) simp_all
qed

text \<open>
  C1. After any sequence of ledger calls from the initial state, \<open>total_checks\<close> equals
  \<open>passed_checks + failed_checks\<close>; \<open>total_checks\<close> counts the \<open>log_check\<close> calls and
  \<open>warning_checks\<close> the \<open>log_warning\<close> calls. Each \<open>log_check\<close> adds one to \<open>total_checks\<close>
  and one to exactly one of \<open>passed_checks\<close> and \<open>failed_checks\<close>; \<open>log_warning\<close> adds one to
  \<open>warning_checks\<close> and changes no other counter.
\<close>

theorem summary_counters_invariant:
  "total_checks (run_events (init_ledger v j) evs)
     = passed_checks (run_events (init_ledger v j) evs) + failed_checks (run_events (init_ledger v j) evs)
   \<and> total_checks (run_events (init_ledger v j) evs) = int (length (filter is_check evs))
   \<and> warning_checks (run_events (init_ledger v j) evs) = int (length (filter is_warning evs))
   \<and> (\<forall>s k n r e a d t.
        total_checks (log_check s k n r e a d t) = total_checks s + 1
        \<and> passed_checks (log_check s k n r e a d t) = passed_checks s + (if r then 1 else 0)
        \<and> failed_checks (log_check s k n r e a d t) = failed_checks s + (if r then 0 else 1)
        \<and> warning_checks (log_check s k n r e a d t) = warning_checks s)
   \<and> (\<forall>s m k.
        total_checks (log_warning s m k) = total_checks s
        \<and> passed_checks (log_warning s m k) = passed_checks s
        \<and> failed_checks (log_warning s m k) = failed_checks s
        \<and> warning_checks (log_warning s m k) = warning_checks s + 1)"
proof -
  have init: "total_checks (init_ledger v j) = 0" "passed_checks (init_ledger v j) = 0"
    "failed_checks (init_ledger v j) = 0" "warning_checks (init_ledger v j) = 0"
    by (simp_all add: init_ledger_def)
  have run: "total_checks (run_events (init_ledger v j) evs) = int (length (filter is_check evs))"
    "passed_checks (run_events (init_ledger v j) evs) = int (length (filter is_passed evs))"
    "failed_checks (run_events (init_ledger v j) evs) = int (length (filter is_failed evs))"
    "warning_checks (run_events (init_ledger v j) evs) = int (length (filter is_warning evs))"
    using run_events_counters[of "init_ledger v j" evs] init by simp_all
  have sum: "total_checks (run_events (init_ledger v j) evs)
     = passed_checks (run_events (init_ledger v j) evs) + failed_checks (run_events (init_ledger v j) evs)"
    using run(1-3) check_partition[of evs] by simp
  show ?thesis
    using sum run(1) run(4) log_check_counters log_warning_counters by blast
qed

section \<open>Index construction\<close>

lemma keys_dict_set: "fst ` set (dict_set d k v) = insert k (fst ` set d)"
  by (induction d k v rule: dict_set.induct) auto

lemma shop_index_step_cases:
  "shop_index_step (d, s) req =
     (if good_action (projr (py_int (row_get req ''Action''))) req
      then (dict_set d (projr (py_int (row_get req ''Action''))) req, s)
      else if bad_action req
      then (d, log_warning s (''Invalid Action ID in requirements: '' @ row_get req ''Action'') JNull)
      else (d, s))"
  by (cases "py_int (row_get req ''Action'')")
    (auto simp: shop_index_step_def good_action_def bad_action_def has_action_def)

lemma log_warning_null:
  "warnings (log_warning s m JNull) = warnings s @ [m]
   \<and> warning_checks (log_warning s m JNull) = warning_checks s + 1
   \<and> total_checks (log_warning s m JNull) = total_checks s
   \<and> passed_checks (log_warning s m JNull) = passed_checks s
   \<and> failed_checks (log_warning s m JNull) = failed_checks s
   \<and> errors (log_warning s m JNull) = errors s
   \<and> subject_errors (log_warning s m JNull) = subject_errors s"
  by (simp add: log_warning_def Let_def)

lemma shop_index_fold:
  "set (map fst (fst (foldl shop_index_step (d, s) reqs)))
      = set (map fst d) \<union> {i. \<exists>req \<in> set reqs. good_action i req}
   \<and> warnings (snd (foldl shop_index_step (d, s) reqs))
      = warnings s @ map (\<lambda>req. ''Invalid Action ID in requirements: '' @ row_get req ''Action'')
                       (filter bad_action reqs)
   \<and> warning_checks (snd (foldl shop_index_step (d, s) reqs))
      = warning_checks s + int (length (filter bad_action reqs))
   \<and> total_checks (snd (foldl shop_index_step (d, s) reqs)) = total_checks s
   \<and> errors (snd (foldl shop_index_step (d, s) reqs)) = errors s
   \<and> subject_errors (snd (foldl shop_index_step (d, s) reqs)) = subject_errors s"
proof (induction reqs arbitrary: d s)
  case Nil
  then show ?case by simp
next
  case (Cons req reqs)
  consider (good) i where "good_action i req" | (bad) "bad_action req"
    | (skip) "\<not> has_action req"
    by (cases "py_int (row_get req ''Action'')") (auto simp: good_action_def bad_action_def)
  then show ?case
  proof cases
    case good
    then have p: "py_int (row_get req ''Action'') = Inr i" and nb: "\<not> bad_action req"
      by (auto simp: good_action_def bad_action_def)
    have st: "shop_index_step (d, s) req = (dict_set d i req, s)"
      using good p by (simp add: shop_index_step_cases)
    have g: "good_action j req \<longleftrightarrow> j = i" for j
      using good p by (auto simp: good_action_def)
    show ?thesis
      using Cons.IH[of "dict_set d i req" s] nb
      by (auto simp: st keys_dict_set g)
  next
    case bad
    then have ng: "\<not> good_action j req" for j
      by (auto simp: good_action_def bad_action_def)
    have st: "shop_index_step (d, s) req
        = (d, log_warning s (''Invalid Action ID in requirements: '' @ row_get req ''Action'') JNull)"
      using bad ng by (simp add: shop_index_step_cases)
    show ?thesis
      using Cons.IH[of d "log_warning s (''Invalid Action ID in requirements: '' @ row_get req ''Action'') JNull"]
        bad ng
      by (simp add: st log_warning_null)
  next
    case skip
    then have nb: "\<not> bad_action req"
      by (auto simp: bad_action_def)
    from skip have ng: "\<not> good_action j req" for j
      by (auto simp: good_action_def)
    have st: "shop_index_step (d, s) req = (d, s)"
      using nb ng by (simp add: shop_index_step_cases)
    show ?thesis
      using Cons.IH[of d s] nb ng by (simp add: st)
  qed
qed

lemma season_pass_actions_index_skips:
  "season_pass_actions_index col acc reqs
     = season_pass_actions_index col acc
         (filter (\<lambda>req. dict_has req col \<and> row_get req col \<noteq> []) reqs)"
proof (induction col acc reqs rule: season_pass_actions_index.induct)
  case (1 col acc)
  then show ?case by simp
next
  case (2 col acc req reqs)
  then show ?case
    by (cases "py_int (row_get req col)") (auto simp: and_then_def)
qed

lemma quests_complexity_details_skips:
  "quests_complexity_details acc reqs
     = quests_complexity_details acc
         (filter (\<lambda>req. dict_has req ''complexity'' \<and> row_get req ''complexity'' \<noteq> []) reqs)"
proof (induction acc reqs rule: quests_complexity_details.induct)
  case (1 acc)
  then show ?case by simp
next
  case (2 acc req reqs)
  then show ?case
    by (cases "py_int (row_get req ''complexity'')") (auto simp: and_then_def)
qed

text \<open>
  C3 (amended). In shop-offers the keys of \<open>requirements_by_action_id\<close> are exactly the
  integers read from the rows whose \<open>Action\<close> cell is present, non-empty and accepted by
  \<open>int\<close>; each row whose \<open>Action\<close> cell is non-empty and rejected by \<open>int\<close> adds one
  warning without a subject and no key; a row whose cell is missing or empty adds neither
  a key nor a warning; nothing else of the ledger changes and the loop returns. In
  main-reward-lines and quests-weekly the rows whose id cell is missing or empty do not
  take part in building \<open>free_actions\<close>, \<open>paid_actions\<close> and \<open>complexity_details\<close>.
\<close>

theorem shop_index_excludes_bad_ids:
  "set (map fst (fst (shop_requirements_by_action_id reqs s)))
      = {i. \<exists>req \<in> set reqs. good_action i req}
   \<and> warnings (snd (shop_requirements_by_action_id reqs s))
      = warnings s @ map (\<lambda>req. ''Invalid Action ID in requirements: '' @ row_get req ''Action'')
                       (filter bad_action reqs)
   \<and> warning_checks (snd (shop_requirements_by_action_id reqs s))
      = warning_checks s + int (length (filter bad_action reqs))
   \<and> errors (snd (shop_requirements_by_action_id reqs s)) = errors s
   \<and> free_actions reqs
      = free_actions (filter (\<lambda>req. dict_has req ''action_free'' \<and> row_get req ''action_free'' \<noteq> []) reqs)
   \<and> paid_actions reqs
      = paid_actions (filter (\<lambda>req. dict_has req ''action_paid'' \<and> row_get req ''action_paid'' \<noteq> []) reqs)
   \<and> quests_complexity_details [] reqs
      = quests_complexity_details []
          (filter (\<lambda>req. dict_has req ''complexity'' \<and> row_get req ''complexity'' \<noteq> []) reqs)"
  unfolding shop_requirements_by_action_id_def free_actions_def paid_actions_def
  using shop_index_fold[of "[]" s reqs]
    season_pass_actions_index_skips[of "''action_free''" "[]" reqs]
    season_pass_actions_index_skips[of "''action_paid''" "[]" reqs]
    quests_complexity_details_skips[of "[]" reqs]
  by simp

text \<open>
  C3 as stated fails: a row without an \<open>Action\<close> column and a row with an empty \<open>Action\<close>
  cell are left out of the index, and no warning is recorded.
\<close>

theorem shop_index_counterexample:
  "fst (shop_requirements_by_action_id
          [[(''alias'', ''mainOffer'')], [(''Action'', ''''), (''alias'', ''passOffer'')]]
          (init_ledger True False)) = []
   \<and> warnings (snd (shop_requirements_by_action_id
          [[(''alias'', ''mainOffer'')], [(''Action'', ''''), (''alias'', ''passOffer'')]]
          (init_ledger True False))) = []
   \<and> warning_checks (snd (shop_requirements_by_action_id
          [[(''alias'', ''mainOffer'')], [(''Action'', ''''), (''alias'', ''passOffer'')]]
          (init_ledger True False))) = 0"
  by (simp add: shop_requirements_by_action_id_def shop_index_step_def dict_has_def row_get_def
      init_ledger_def)

text \<open>In quests-weekly a non-numeric \<open>complexity\<close> cell ends the construction.\<close>

lemma quests_index_raises:
  "quests_complexity_details [] [[(''complexity'', ''abc'')]] = Inl ValueError"
  by (simp add: and_then_def dict_has_def row_get_def py_int_def strip_def is_space_def
      is_digit_def)

section \<open>The per-subject error map\<close>

lemma map_of_dict_set: "map_of (dict_set d k v) = (map_of d)(k \<mapsto> v)"
  by (induction d k v rule: dict_set.induct) (auto simp: fun_eq_iff)

lemma dict_get_append_entry:
  "dict_get (append_entry m k entry) k'
     = (if k' = k then Some ((case dict_get m k of Some es \<Rightarrow> es | None \<Rightarrow> []) @ [entry])
        else dict_get m k')"
  by (auto simp: append_entry_def dict_get_def dict_has_def map_of_dict_set Let_def
      split: option.splits)

lemma dict_get_apply_event:
  "dict_get (subject_errors (apply_event s ev)) k
     = (if entry_of k ev = [] then dict_get (subject_errors s) k
        else Some ((case dict_get (subject_errors s) k of Some es \<Rightarrow> es | None \<Rightarrow> [])
                    @ entry_of k ev))"
  by (cases ev)
    (auto simp: log_check_def log_warning_def log_error_def log_info_def print_header_def
      Let_def dict_get_append_entry)

lemma dict_get_run_events:
  "dict_get (subject_errors (run_events s evs)) k
     = (if entries_for k evs = [] then dict_get (subject_errors s) k
        else Some ((case dict_get (subject_errors s) k of Some es \<Rightarrow> es | None \<Rightarrow> [])
                    @ entries_for k evs))"
  unfolding run_events_def entries_for_def
proof (induction evs arbitrary: s)
  case Nil
  then show ?case by simp
next
  case (Cons ev evs)
  show ?case
    using Cons.IH[of "apply_event s ev"] dict_get_apply_event[of s ev k]
    by (auto split: option.splits)
qed

lemma warnings_run_events:
  "warnings (run_events s evs) = warnings s @ concat (map warning_text evs)"
  unfolding run_events_def
proof (induction evs arbitrary: s)
  case Nil
  then show ?case by simp
next
  case (Cons ev evs)
  have "warnings (apply_event s ev) = warnings s @ warning_text ev"
    by (cases ev)
      (simp_all add: log_check_def log_warning_def log_error_def log_info_def print_header_def
        Let_def)
  then show ?case using Cons.IH[of "apply_event s ev"] by simp
qed

lemma entry_of_in_entries_for:
  "ev \<in> set evs \<Longrightarrow> x \<in> set (entry_of k ev) \<Longrightarrow> x \<in> set (entries_for k evs)"
  by (auto simp: entries_for_def)

text \<open>
  C9 (amended). After any run from the initial ledger, every failing check is in the
  per-subject map under its subject key, and so is every warning that was logged with a
  subject key; the map holds under each key exactly the entries of the run for that key,
  in order. A warning logged without a subject key goes to \<open>warnings\<close> and leaves the map
  unchanged. In end-news-double-points a failing check is entered under its \<open>check_id\<close>,
  and \<open>log_warning\<close> never changes the map, whatever \<open>check_id\<close> it is given.
\<close>

theorem per_subject_map_consistent:
  "(Check k n False e a d t \<in> set evs \<longrightarrow>
      (\<exists>es. dict_get (subject_errors (run_events (init_ledger v j) evs)) k = Some es
         \<and> [(''check'', JStr n), (''expected'', e), (''actual'', a), (''details'', d), (''tag'', t)]
             \<in> set es))
   \<and> (k \<noteq> JNull \<and> Warn m k \<in> set evs \<longrightarrow>
      (\<exists>es. dict_get (subject_errors (run_events (init_ledger v j) evs)) k = Some es
         \<and> [(''check'', JStr ''warning''), (''expected'', JNull), (''actual'', JNull),
             (''details'', JStr m), (''tag'', JStr ''WARNING'')] \<in> set es))
   \<and> dict_get (subject_errors (run_events (init_ledger v j) evs)) k
       = (if entries_for k evs = [] then None else Some (entries_for k evs))
   \<and> warnings (run_events (init_ledger v j) evs) = concat (map warning_text evs)
   \<and> subject_errors (log_warning s m JNull) = subject_errors s
   \<and> (\<exists>es. dict_get (subject_errors (end_news_log_check s k n False e a d)) k = Some es
         \<and> [(''check'', JStr n), (''expected'', e), (''actual'', a), (''details'', d)] \<in> set es)
   \<and> subject_errors (end_news_log_warning s m k) = subject_errors s"
proof -
  let ?M = "subject_errors (run_events (init_ledger v j) evs)"
  have M: "dict_get ?M k = (if entries_for k evs = [] then None else Some (entries_for k evs))"
    using dict_get_run_events[of "init_ledger v j" evs k]
    by (simp add: init_ledger_def dict_get_def)
  have c: "Check k n False e a d t \<in> set evs \<Longrightarrow>
      [(''check'', JStr n), (''expected'', e), (''actual'', a), (''details'', d), (''tag'', t)]
        \<in> set (entries_for k evs)"
    by (rule entry_of_in_entries_for[where ev = "Check k n False e a d t"]) simp_all
  have w: "k \<noteq> JNull \<Longrightarrow> Warn m k \<in> set evs \<Longrightarrow>
      [(''check'', JStr ''warning''), (''expected'', JNull), (''actual'', JNull),
       (''details'', JStr m), (''tag'', JStr ''WARNING'')] \<in> set (entries_for k evs)"
    by (rule entry_of_in_entries_for[where ev = "Warn m k"]) simp_all
  have ws: "warnings (run_events (init_ledger v j) evs) = concat (map warning_text evs)"
    using warnings_run_events[of "init_ledger v j" evs] by (simp add: init_ledger_def)
  have f: "subject_errors (log_warning s m JNull) = subject_errors s"
    by (simp add: log_warning_def Let_def)
  from c have c': "Check k n False e a d t \<in> set evs \<longrightarrow>
      (\<exists>es. dict_get ?M k = Some es
         \<and> [(''check'', JStr n), (''expected'', e), (''actual'', a), (''details'', d), (''tag'', t)]
             \<in> set es)"
    using M by (auto split: if_splits)
  from w have w': "k \<noteq> JNull \<and> Warn m k \<in> set evs \<longrightarrow>
      (\<exists>es. dict_get ?M k = Some es
         \<and> [(''check'', JStr ''warning''), (''expected'', JNull), (''actual'', JNull),
             (''details'', JStr m), (''tag'', JStr ''WARNING'')] \<in> set es)"
    using M by (auto split: if_splits)
  have en: "\<exists>es. dict_get (subject_errors (end_news_log_check s k n False e a d)) k = Some es
         \<and> [(''check'', JStr n), (''expected'', e), (''actual'', a), (''details'', d)] \<in> set es"
    by (simp add: end_news_log_check_def Let_def dict_get_append_entry)
  have ew: "subject_errors (end_news_log_warning s m k) = subject_errors s"
    by (simp add: end_news_log_warning_def Let_def)
  show ?thesis using c' w' M ws f en ew by blast
qed

theorem per_subject_map_witness:
  "(\<exists>es. dict_get (subject_errors (run_events (init_ledger True False)
              [Check (JInt 7) ''award'' False (JInt 5) (JInt 4) JNull (JStr ''AWARD_CHECK''),
               Warn ''no offer id'' (JInt 7)])) (JInt 7) = Some es
         \<and> [(''check'', JStr ''award''), (''expected'', JInt 5), (''actual'', JInt 4),
             (''details'', JNull), (''tag'', JStr ''AWARD_CHECK'')] \<in> set es)
   \<and> (\<exists>es. dict_get (subject_errors (run_events (init_ledger True False)
              [Check (JInt 7) ''award'' False (JInt 5) (JInt 4) JNull (JStr ''AWARD_CHECK''),
               Warn ''no offer id'' (JInt 7)])) (JInt 7) = Some es
         \<and> [(''check'', JStr ''warning''), (''expected'', JNull), (''actual'', JNull),
             (''details'', JStr ''no offer id''), (''tag'', JStr ''WARNING'')] \<in> set es)"
proof -
  have c: "Check (JInt 7) ''award'' False (JInt 5) (JInt 4) JNull (JStr ''AWARD_CHECK'')
      \<in> set [Check (JInt 7) ''award'' False (JInt 5) (JInt 4) JNull (JStr ''AWARD_CHECK''),
              Warn ''no offer id'' (JInt 7)]"
    by simp
  have w: "JInt 7 \<noteq> JNull \<and> Warn ''no offer id'' (JInt 7)
      \<in> set [Check (JInt 7) ''award'' False (JInt 5) (JInt 4) JNull (JStr ''AWARD_CHECK''),
              Warn ''no offer id'' (JInt 7)]"
    by simp
  show ?thesis
    using c w per_subject_map_consistent[where k = "JInt 7" and n = "''award''" and e = "JInt 5"
      and a = "JInt 4" and d = JNull and t = "JStr ''AWARD_CHECK''" and m = "''no offer id''"
      and v = True and j = False and s = "init_ledger True False"
      and evs = "[Check (JInt 7) ''award'' False (JInt 5) (JInt 4) JNull (JStr ''AWARD_CHECK''),
                  Warn ''no offer id'' (JInt 7)]"]
    by blast
qed

text \<open>
  C9 as stated fails: shop-offers logs the warning that \<open>parameters\<close> is missing from
  promo.json without a subject, and end-news-double-points logs the warning that the
  multiplier could not be read from the alias; each is recorded in \<open>warnings\<close>, and the
  per-subject map stays empty.
\<close>

theorem per_subject_map_counterexample:
  "warnings (log_warning (init_ledger True False) ''parameters is missing in promo.json'' JNull)
     = [''parameters is missing in promo.json'']
   \<and> subject_errors
       (log_warning (init_ledger True False) ''parameters is missing in promo.json'' JNull) = []
   \<and> warnings (end_news_log_warning (init_ledger True False)
        ''Could not extract the multiplier from the alias double points(2)'' JNull)
     = [''Could not extract the multiplier from the alias double points(2)'']
   \<and> subject_errors (end_news_log_warning (init_ledger True False)
        ''Could not extract the multiplier from the alias double points(2)'' JNull) = []"
  by (simp add: log_warning_def end_news_log_warning_def init_ledger_def Let_def)

section \<open>Presence and value of award entries\<close>

lemma digit_not_space: "is_digit c \<Longrightarrow> \<not> is_space c"
  by (auto simp: is_digit_def is_space_def)

lemma strip_digits: "isdigit s \<Longrightarrow> strip s = s"
proof -
  assume a: "isdigit s"
  then obtain c r where s: "s = c # r" by (cases s) (auto simp: isdigit_def)
  have h: "\<not> is_space (hd s)" using a s digit_not_space by (auto simp: isdigit_def)
  have l: "\<not> is_space (last s)" using a s digit_not_space[of "last s"]
    by (auto simp: isdigit_def)
  have 1: "dropWhile is_space s = s" using h s by simp
  have "dropWhile is_space (rev s) = rev s"
    using l s by (metis dropWhile_eq_self_iff hd_rev list.discI rev_is_Nil_conv)
  then show ?thesis by (simp add: strip_def 1)
qed

lemma digits_ok_all: "s \<noteq> [] \<Longrightarrow> \<forall>c\<in>set s. is_digit c \<Longrightarrow> digits_ok s"
proof (induction s rule: digits_ok.induct)
  case 1
  then show ?case by simp
next
  case (2 c)
  then show ?case by simp
next
  case (3 c d r)
  then have "d \<noteq> CHR ''_''" by (auto simp: is_digit_def)
  then show ?case using 3 by simp
qed

lemma py_int_isdigit: "isdigit s \<Longrightarrow> py_int s = Inr (int (nat_of_digits s))"
proof -
  assume a: "isdigit s"
  then obtain c r where s: "s = c # r" by (cases s) (auto simp: isdigit_def)
  have c: "is_digit c" using a s by (simp add: isdigit_def)
  then have ns: "c \<noteq> CHR ''-''" "c \<noteq> CHR ''+''" by (auto simp: is_digit_def)
  have ok: "digits_ok s" using a digits_ok_all by (auto simp: isdigit_def)
  have f: "filter is_digit s = s" using a by (auto simp: isdigit_def)
  show ?thesis
    unfolding py_int_def strip_digits[OF a] using ns ok f s by (simp add: Let_def)
qed

lemma log_check_effect:
  "info_logs (log_check s k n r e a d t)
     = info_logs s @ [if r then LogCheckOk k n e a else LogCheckFail k n e a]
   \<and> total_checks (log_check s k n r e a d t) = total_checks s + 1
   \<and> failed_checks (log_check s k n r e a d t) = failed_checks s + (if r then 0 else 1)
   \<and> passed_checks (log_check s k n r e a d t) = passed_checks s + (if r then 1 else 0)"
  by (simp add: log_check_def Let_def)

lemma quest_award_check_absent:
  assumes "row_get req_details (''count('' @ str_of_int item_id @ '')'') = req_count"
    and "isdigit req_count"
    and "py_iter awards = Inr award_list"
    and "find_quest_award item_id award_list = Inr None"
  shows "\<exists>s'. quest_award_check s cid awards req_details item_id = Inr s'
     \<and> info_logs s' = info_logs s
          @ [LogCheckFail (JInt cid)
               (''Award itemId: '' @ str_of_int item_id @ '' present in the quest'')
               (JStr ''Present'') (JStr ''Absent'')]
     \<and> total_checks s' = total_checks s + 1
     \<and> failed_checks s' = failed_checks s + 1"
proof -
  have ne: "req_count \<noteq> []" using assms(2) by (auto simp: isdigit_def)
  show ?thesis
    unfolding quest_award_check_def
    using assms ne py_int_isdigit[OF assms(2)]
    by (simp add: and_then_def Let_def log_check_effect)
qed

lemma quest_award_check_present:
  assumes "row_get req_details (''count('' @ str_of_int item_id @ '')'') = req_count"
    and "isdigit req_count"
    and "py_iter awards = Inr award_list"
    and "find_quest_award item_id award_list = Inr (Some award_count)"
  shows "\<exists>s'. quest_award_check s cid awards req_details item_id = Inr s'
     \<and> info_logs s' = info_logs s
          @ [LogCheckOk (JInt cid)
               (''Award itemId: '' @ str_of_int item_id @ '' present in the quest'')
               (JStr ''Present'') (JStr ''Present''),
             (if py_eq_int award_count (int (nat_of_digits req_count))
              then LogCheckOk else LogCheckFail) (JInt cid)
               (''Count of award itemId: '' @ str_of_int item_id @ '' matches'')
               (JInt (int (nat_of_digits req_count))) award_count]
     \<and> total_checks s' = total_checks s + 2"
proof -
  have ne: "req_count \<noteq> []" using assms(2) by (auto simp: isdigit_def)
  show ?thesis
    unfolding quest_award_check_def
    using assms ne py_int_isdigit[OF assms(2)]
    by (simp add: and_then_def Let_def log_check_effect)
qed

lemma shop_award_check_single:
  assumes "cell \<noteq> []" and "startswith column ''Award_''"
    and "split_on CHR ''('' column = [p0, p1]"
    and "py_int (replace_all '')'' [] p1) = Inr item_id"
    and "py_int cell = Inr expected_count"
    and "py_iter awards = Inr award_list"
    and "find_item_award item_id award_list = Inr found"
  shows "\<exists>s'. shop_award_check s action_id awards column cell = Inr s'
     \<and> info_logs s' = info_logs s
          @ [(if (case found of Some c \<Rightarrow> py_eq_int c expected_count | None \<Rightarrow> False)
              then LogCheckOk else LogCheckFail) (JInt action_id)
               (''Award '' @ str_of_int item_id @ '' ('' @ replace_all ''Award_'' [] p0
                  @ '') in the action'')
               (JInt expected_count)
               (case found of Some c \<Rightarrow> c | None \<Rightarrow> JStr ''Not found'')]
     \<and> total_checks s' = total_checks s + 1"
  unfolding shop_award_check_def
  using assms by (simp add: and_then_def Let_def log_check_effect)

text \<open>
  C4 (amended). In quests-weekly, for an award item that the requirement declares with a
  digit-only count, the presence check is logged first and the count check only when the
  entry was found: an absent entry gives exactly one failed check and no count check, a
  present entry gives the presence check and the count check as two results. In
  shop-offers each well-formed award column gives exactly one check, which passes when
  the entry is found with the expected count and reports \<open>Not found\<close> as actual value when
  the entry is absent.
\<close>

theorem presence_then_value:
  "(row_get req_details (''count('' @ str_of_int item_id @ '')'') = req_count
      \<and> isdigit req_count
      \<and> py_iter awards = Inr award_list
      \<and> find_quest_award item_id award_list = Inr found
    \<longrightarrow>
      (\<exists>s'. quest_award_check s cid awards req_details item_id = Inr s'
         \<and> (case found of
               None \<Rightarrow>
                 info_logs s' = info_logs s
                   @ [LogCheckFail (JInt cid)
                        (''Award itemId: '' @ str_of_int item_id @ '' present in the quest'')
                        (JStr ''Present'') (JStr ''Absent'')]
                 \<and> total_checks s' = total_checks s + 1
                 \<and> failed_checks s' = failed_checks s + 1
             | Some award_count \<Rightarrow>
                 info_logs s' = info_logs s
                   @ [LogCheckOk (JInt cid)
                        (''Award itemId: '' @ str_of_int item_id @ '' present in the quest'')
                        (JStr ''Present'') (JStr ''Present''),
                      (if py_eq_int award_count (int (nat_of_digits req_count))
                       then LogCheckOk else LogCheckFail) (JInt cid)
                        (''Count of award itemId: '' @ str_of_int item_id @ '' matches'')
                        (JInt (int (nat_of_digits req_count))) award_count]
                 \<and> total_checks s' = total_checks s + 2)))
   \<and> (cell \<noteq> [] \<and> startswith column ''Award_''
      \<and> split_on CHR ''('' column = [p0, p1]
      \<and> py_int (replace_all '')'' [] p1) = Inr shop_item_id
      \<and> py_int cell = Inr expected_count
      \<and> py_iter action_awards = Inr action_award_list
      \<and> find_item_award shop_item_id action_award_list = Inr shop_found
    \<longrightarrow>
      (\<exists>s'. shop_award_check s action_id action_awards column cell = Inr s'
         \<and> info_logs s' = info_logs s
              @ [(if (case shop_found of Some c \<Rightarrow> py_eq_int c expected_count | None \<Rightarrow> False)
                  then LogCheckOk else LogCheckFail) (JInt action_id)
                   (''Award '' @ str_of_int shop_item_id @ '' ('' @ replace_all ''Award_'' [] p0
                      @ '') in the action'')
                   (JInt expected_count)
                   (case shop_found of Some c \<Rightarrow> c | None \<Rightarrow> JStr ''Not found'')]
         \<and> total_checks s' = total_checks s + 1))"
proof (intro conjI impI)
  assume h: "row_get req_details (''count('' @ str_of_int item_id @ '')'') = req_count
      \<and> isdigit req_count
      \<and> py_iter awards = Inr award_list
      \<and> find_quest_award item_id award_list = Inr found"
  show "\<exists>s'. quest_award_check s cid awards req_details item_id = Inr s'
         \<and> (case found of
               None \<Rightarrow>
                 info_logs s' = info_logs s
                   @ [LogCheckFail (JInt cid)
                        (''Award itemId: '' @ str_of_int item_id @ '' present in the quest'')
                        (JStr ''Present'') (JStr ''Absent'')]
                 \<and> total_checks s' = total_checks s + 1
                 \<and> failed_checks s' = failed_checks s + 1
             | Some award_count \<Rightarrow>
                 info_logs s' = info_logs s
                   @ [LogCheckOk (JInt cid)
                        (''Award itemId: '' @ str_of_int item_id @ '' present in the quest'')
                        (JStr ''Present'') (JStr ''Present''),
                      (if py_eq_int award_count (int (nat_of_digits req_count))
                       then LogCheckOk else LogCheckFail) (JInt cid)
                        (''Count of award itemId: '' @ str_of_int item_id @ '' matches'')
                        (JInt (int (nat_of_digits req_count))) award_count]
                 \<and> total_checks s' = total_checks s + 2)"
  proof (cases found)
    case None
    then show ?thesis
      using h quest_award_check_absent[of req_details item_id req_count awards award_list s cid]
      by simp
  next
    case (Some award_count)
    then show ?thesis
      using h quest_award_check_present[of req_details item_id req_count awards award_list
          award_count s cid]
      by simp
  qed
next
  assume h: "cell \<noteq> [] \<and> startswith column ''Award_''
      \<and> split_on CHR ''('' column = [p0, p1]
      \<and> py_int (replace_all '')'' [] p1) = Inr shop_item_id
      \<and> py_int cell = Inr expected_count
      \<and> py_iter action_awards = Inr action_award_list
      \<and> find_item_award shop_item_id action_award_list = Inr shop_found"
  then show "\<exists>s'. shop_award_check s action_id action_awards column cell = Inr s'
         \<and> info_logs s' = info_logs s
              @ [(if (case shop_found of Some c \<Rightarrow> py_eq_int c expected_count | None \<Rightarrow> False)
                  then LogCheckOk else LogCheckFail) (JInt action_id)
                   (''Award '' @ str_of_int shop_item_id @ '' ('' @ replace_all ''Award_'' [] p0
                      @ '') in the action'')
                   (JInt expected_count)
                   (case shop_found of Some c \<Rightarrow> c | None \<Rightarrow> JStr ''Not found'')]
         \<and> total_checks s' = total_checks s + 1"
    using shop_award_check_single[of cell column p0 p1 shop_item_id expected_count action_awards
        action_award_list shop_found s action_id]
    by blast
qed

theorem presence_then_value_witness:
  "(\<exists>s'. quest_award_check (init_ledger True False) 5 (JArr []) [(''count(17909)'', ''10'')] 17909
            = Inr s'
       \<and> info_logs s'
           = [LogCheckFail (JInt 5) ''Award itemId: 17909 present in the quest''
                (JStr ''Present'') (JStr ''Absent'')]
       \<and> total_checks s' = 1 \<and> failed_checks s' = 1)
   \<and> (\<exists>s'. shop_award_check (init_ledger True False) 5
              (JArr [JObj [(''type'', JStr ''item''), (''itemId'', JInt 17909), (''count'', JInt 10)]])
              ''Award_points(17909)'' ''10'' = Inr s'
       \<and> info_logs s'
           = [LogCheckOk (JInt 5) ''Award 17909 (points) in the action'' (JInt 10) (JInt 10)]
       \<and> total_checks s' = 1)"
proof -
  have n: "str_of_int 17909 = ''17909''" by (simp add: str_of_int_def)
  have i10: "py_int ''10'' = Inr 10"
    by (simp add: py_int_def strip_def is_space_def nat_of_digits_def is_digit_def)
  have i17909: "py_int ''17909'' = Inr 17909"
    by (simp add: py_int_def strip_def is_space_def nat_of_digits_def is_digit_def)
  have q: "row_get [(''count(17909)'', ''10'')] (''count('' @ str_of_int 17909 @ '')'') = ''10''
      \<and> isdigit ''10''
      \<and> py_iter (JArr []) = Inr []
      \<and> find_quest_award 17909 [] = Inr None"
    by (simp add: n row_get_def isdigit_def is_digit_def)
  have sp: "''10'' \<noteq> [] \<and> startswith ''Award_points(17909)'' ''Award_''
      \<and> split_on CHR ''('' ''Award_points(17909)'' = [''Award_points'', ''17909)'']
      \<and> py_int (replace_all '')'' [] ''17909)'') = Inr 17909
      \<and> py_int ''10'' = Inr 10
      \<and> py_iter (JArr [JObj [(''type'', JStr ''item''), (''itemId'', JInt 17909), (''count'', JInt 10)]])
          = Inr [JObj [(''type'', JStr ''item''), (''itemId'', JInt 17909), (''count'', JInt 10)]]
      \<and> find_item_award 17909
            [JObj [(''type'', JStr ''item''), (''itemId'', JInt 17909), (''count'', JInt 10)]]
          = Inr (Some (JInt 10))"
    by (simp add: startswith_def replace_all_def i10 i17909 and_then_def)
  have r: "replace_all ''Award_'' [] ''Award_points'' = ''points''"
    by (simp add: replace_all_def)
  have nd: "nat_of_digits ''10'' = 10" by (simp add: nat_of_digits_def)
  have l0: "info_logs (init_ledger True False) = [] \<and> total_checks (init_ledger True False) = 0
      \<and> failed_checks (init_ledger True False) = 0"
    by (simp add: init_ledger_def)
  show ?thesis
    using q sp
      presence_then_value[where req_details = "[(''count(17909)'', ''10'')]" and item_id = 17909
        and req_count = "''10''" and awards = "JArr []" and award_list = "[]" and found = None
        and s = "init_ledger True False" and cid = 5 and cell = "''10''"
        and column = "''Award_points(17909)''" and ?p0.0 = "''Award_points''" and ?p1.0 = "''17909)''"
        and shop_item_id = 17909 and expected_count = 10
        and action_awards = "JArr [JObj [(''type'', JStr ''item''), (''itemId'', JInt 17909), (''count'', JInt 10)]]"
        and action_award_list = "[JObj [(''type'', JStr ''item''), (''itemId'', JInt 17909), (''count'', JInt 10)]]"
        and shop_found = "Some (JInt 10)" and action_id = 5]
    by (simp add: n r l0)
qed

lemma shop_present_eval:
  "shop_award_check (init_ledger True False) 5
        (JArr [JObj [(''type'', JStr ''item''), (''itemId'', JInt 17909), (''count'', JInt 10)]])
        ''Award_points(17909)'' ''10''
   = Inr (log_check (init_ledger True False) (JInt 5) ''Award 17909 (points) in the action'' True
            (JInt 10) (JInt 10) JNull (JStr ''AWARD_CHECK''))"
proof -
  have n: "str_of_int 17909 = ''17909''" by (simp add: str_of_int_def)
  have i10: "py_int ''10'' = Inr 10"
    by (simp add: py_int_def strip_def is_space_def nat_of_digits_def is_digit_def)
  have i17909: "py_int ''17909'' = Inr 17909"
    by (simp add: py_int_def strip_def is_space_def nat_of_digits_def is_digit_def)
  have sp: "split_on CHR ''('' ''Award_points(17909)'' = [''Award_points'', ''17909)'']"
    by simp
  have r1: "replace_all '')'' [] ''17909)'' = ''17909''" by (simp add: replace_all_def)
  have r2: "replace_all ''Award_'' [] ''Award_points'' = ''points''" by (simp add: replace_all_def)
  have st: "startswith ''Award_points(17909)'' ''Award_''" by (simp add: startswith_def)
  show ?thesis
    unfolding shop_award_check_def sp
    by (simp add: st r1 r2 i10 i17909 n and_then_def Let_def)
qed

text \<open>
  C4 as stated fails: in shop-offers an award entry that is present, here with the
  expected count, gives one check result and not two.
\<close>

theorem presence_then_value_counterexample:
  "map_sum id total_checks
     (shop_award_check (init_ledger True False) 5
        (JArr [JObj [(''type'', JStr ''item''), (''itemId'', JInt 17909), (''count'', JInt 10)]])
        ''Award_points(17909)'' ''10'') = Inr 1
   \<and> map_sum id info_logs
     (shop_award_check (init_ledger True False) 5
        (JArr [JObj [(''type'', JStr ''item''), (''itemId'', JInt 17909), (''count'', JInt 10)]])
        ''Award_points(17909)'' ''10'')
     = Inr [LogCheckOk (JInt 5) ''Award 17909 (points) in the action'' (JInt 10) (JInt 10)]"
  unfolding shop_present_eval by (simp add: log_check_def init_ledger_def Let_def)

section \<open>Order-insensitive comparison of segment lists (rfm-offers)\<close>

lemma sort_eq_iff_mset: "sort xs = sort ys \<longleftrightarrow> mset xs = mset ys" for xs ys :: "'a::linorder list"
proof
  assume "sort xs = sort ys"
  then have "mset (sort xs) = mset (sort ys)" by simp
  then show "mset xs = mset ys" by simp
next
  assume "mset xs = mset ys"
  then have "mset (sort ys) = mset xs" by simp
  then show "sort xs = sort ys"
    by (rule properties_for_sort) simp
qed

lemma parse_ba: "parse_segments ''b,a'' = [''b'', ''a'']"
  by (simp add: parse_segments_def strip_def is_space_def)

lemma parse_ab: "parse_segments ''a, b'' = [''a'', ''b'']"
  by (simp add: parse_segments_def strip_def is_space_def)

text \<open>
  C5. The comparison of two comma-separated segment texts holds exactly when the two
  lists of trimmed non-empty items are equal as multisets, so the order of the items on
  either side does not matter; \<open>b,a\<close> against \<open>a, b\<close> passes. This comparison is the
  result of the segments check whenever \<open>settingsByConditions\<close> has an entry with the key
  \<open>isNotInOneOfRFM30Segments\<close>.
\<close>

theorem segments_equal_order_insensitive:
  "segments_equal expected_text actual_text
     = (mset (parse_segments expected_text) = mset (parse_segments actual_text))
   \<and> segments_equal ''b,a'' ''a, b''
   \<and> (py_get rfm_config ''parameters'' (JObj []) = Inr parameters
        \<and> py_get parameters ''settingsByConditions'' (JArr []) = Inr settings_by_conditions
        \<and> py_iter settings_by_conditions = Inr settings_list
        \<and> find_segment_condition settings_list = Inr (Some actual)
      \<longrightarrow> segments_check s offer_name req rfm_config
          = Inr (log_check s (JStr offer_name) ''Segments in settingsByConditions''
                   (mset (parse_segments (row_get req ''segment'')) = mset (parse_segments actual))
                   (JStr (join '','' (sort (parse_segments (row_get req ''segment'')))))
                   (JStr (join '','' (sort (parse_segments actual))))
                   JNull (JStr ''SEGMENTS_CHECK'')))"
proof -
  have a: "segments_equal e a = (mset (parse_segments e) = mset (parse_segments a))" for e a
    by (simp add: segments_equal_def sort_eq_iff_mset)
  have b: "segments_equal ''b,a'' ''a, b''"
    unfolding a parse_ba parse_ab by simp
  have c: "py_get rfm_config ''parameters'' (JObj []) = Inr parameters
        \<and> py_get parameters ''settingsByConditions'' (JArr []) = Inr settings_by_conditions
        \<and> py_iter settings_by_conditions = Inr settings_list
        \<and> find_segment_condition settings_list = Inr (Some actual)
      \<longrightarrow> segments_check s offer_name req rfm_config
          = Inr (log_check s (JStr offer_name) ''Segments in settingsByConditions''
                   (mset (parse_segments (row_get req ''segment'')) = mset (parse_segments actual))
                   (JStr (join '','' (sort (parse_segments (row_get req ''segment'')))))
                   (JStr (join '','' (sort (parse_segments actual))))
                   JNull (JStr ''SEGMENTS_CHECK''))"
    by (simp add: segments_check_def and_then_def Let_def a)
  show ?thesis using a b c by blast
qed

theorem segments_equal_witness:
  "segments_check (init_ledger True False) ''rfm_offer_1'' [(''segment'', ''b,a'')]
     (JObj [(''parameters'', JObj [(''settingsByConditions'',
        JArr [JObj [(''conditions'', JObj [(''isNotInOneOfRFM30Segments'', JStr ''a, b'')])]])])])
   = Inr (log_check (init_ledger True False) (JStr ''rfm_offer_1'')
            ''Segments in settingsByConditions'' True (JStr ''a,b'') (JStr ''a,b'') JNull
            (JStr ''SEGMENTS_CHECK''))"
proof -
  have h: "py_get (JObj [(''parameters'', JObj [(''settingsByConditions'',
              JArr [JObj [(''conditions'', JObj [(''isNotInOneOfRFM30Segments'', JStr ''a, b'')])]])])])
             ''parameters'' (JObj [])
           = Inr (JObj [(''settingsByConditions'',
              JArr [JObj [(''conditions'', JObj [(''isNotInOneOfRFM30Segments'', JStr ''a, b'')])]])])
      \<and> py_get (JObj [(''settingsByConditions'',
              JArr [JObj [(''conditions'', JObj [(''isNotInOneOfRFM30Segments'', JStr ''a, b'')])]])])
             ''settingsByConditions'' (JArr [])
           = Inr (JArr [JObj [(''conditions'', JObj [(''isNotInOneOfRFM30Segments'', JStr ''a, b'')])]])
      \<and> py_iter (JArr [JObj [(''conditions'', JObj [(''isNotInOneOfRFM30Segments'', JStr ''a, b'')])]])
           = Inr [JObj [(''conditions'', JObj [(''isNotInOneOfRFM30Segments'', JStr ''a, b'')])]]
      \<and> find_segment_condition
             [JObj [(''conditions'', JObj [(''isNotInOneOfRFM30Segments'', JStr ''a, b'')])]]
           = Inr (Some ''a, b'')"
    by (simp add: and_then_def)
  have r: "row_get [(''segment'', ''b,a'')] ''segment'' = ''b,a''" by (simp add: row_get_def)
  have so: "sort [''b'', ''a''] = [''a'', ''b'']" "sort [''a'', ''b''] = [''a'', ''b'']" by simp_all
  show ?thesis
    using h segments_equal_order_insensitive[where rfm_config = "JObj [(''parameters'', JObj [(''settingsByConditions'',
        JArr [JObj [(''conditions'', JObj [(''isNotInOneOfRFM30Segments'', JStr ''a, b'')])]])])]"
        and actual = "''a, b''" and req = "[(''segment'', ''b,a'')]" and s = "init_ledger True False"
        and offer_name = "''rfm_offer_1''"
        and parameters = "JObj [(''settingsByConditions'',
              JArr [JObj [(''conditions'', JObj [(''isNotInOneOfRFM30Segments'', JStr ''a, b'')])]])]"
        and settings_by_conditions = "JArr [JObj [(''conditions'', JObj [(''isNotInOneOfRFM30Segments'', JStr ''a, b'')])]]"
        and settings_list = "[JObj [(''conditions'', JObj [(''isNotInOneOfRFM30Segments'', JStr ''a, b'')])]]"]
    by (simp add: r parse_ba parse_ab so)
qed

section \<open>Prices match within 0.001\<close>










lemma pow2_nat: "pow2 (int j) = 2 ^ j"
  by (simp add: pow2_def)


















section \<open>Date normalisation (rfm-offers)\<close>

lemma take_digits_app:
  "\<forall>c\<in>set ds. is_digit c \<Longrightarrow> take_digits (length ds) (ds @ r) = Some (ds, r)"
  by (induction ds) auto

lemma take_digits_SomeD:
  "take_digits n s = Some (d, r) \<Longrightarrow> s = d @ r \<and> length d = n \<and> (\<forall>c\<in>set d. is_digit c)"
proof (induction n s arbitrary: d r rule: take_digits.induct)
  case (1 s) then show ?case by simp
next
  case (2 n) then show ?case by simp
next
  case (3 n c s)
  then show ?case by (auto split: if_splits)
qed

lemma take_char_SomeD: "take_char c s = Some r \<Longrightarrow> s = c # r"
  by (cases s) (auto split: if_splits)

lemma digit_not_colon: "is_digit c \<Longrightarrow> c \<noteq> CHR '':''"
  by (auto simp: is_digit_def)

lemma match_single:
  assumes "length y = 4" "length mo = 2" "length d = 2" "length mi = 2" "length se = 2"
    and "\<forall>c\<in>set (y @ mo @ d @ [h] @ mi @ se). is_digit c"
  shows "match_hour_pattern (y @ ''-'' @ mo @ ''-'' @ d @ '' '' @ [h] @ '':'' @ mi @ '':'' @ se @ rest)
     = Some (y @ ''-'' @ mo @ ''-'' @ d, [h], mi, se)"
proof -
  have a: "take_digits 4 (y @ r) = Some (y, r)" for r
    using take_digits_app[of y r] assms by simp
  have b: "take_digits 2 (mo @ r) = Some (mo, r)" for r
    using take_digits_app[of mo r] assms by simp
  have c: "take_digits 2 (d @ r) = Some (d, r)" for r
    using take_digits_app[of d r] assms by simp
  have e: "take_digits 2 (mi @ r) = Some (mi, r)" for r
    using take_digits_app[of mi r] assms by simp
  have f: "take_digits 2 (se @ r) = Some (se, r)" for r
    using take_digits_app[of se r] assms by simp
  have g: "is_digit h" using assms(6) by simp
  show ?thesis
    unfolding match_hour_pattern_def by (simp add: a b c e f g)
qed

lemma match_double:
  assumes "length y = 4" "length mo = 2" "length d = 2"
    and "\<forall>c\<in>set (y @ mo @ d). is_digit c" and "is_digit h2"
  shows "match_hour_pattern (y @ ''-'' @ mo @ ''-'' @ d @ '' '' @ h1 # h2 # rest) = None"
proof -
  have a: "take_digits 4 (y @ r) = Some (y, r)" for r
    using take_digits_app[of y r] assms by simp
  have b: "take_digits 2 (mo @ r) = Some (mo, r)" for r
    using take_digits_app[of mo r] assms by simp
  have c: "take_digits 2 (d @ r) = Some (d, r)" for r
    using take_digits_app[of d r] assms by simp
  have g: "h2 \<noteq> CHR '':''" using assms digit_not_colon by blast
  show ?thesis
    unfolding match_hour_pattern_def by (simp add: a b c g)
qed

lemma zfill_single: "zfill 2 [h] = (if h = CHR ''+'' \<or> h = CHR ''-'' then [h, CHR ''0''] else [CHR ''0'', h])"
  by (simp add: zfill_def)

lemma digit_not_sign: "is_digit c \<Longrightarrow> c \<noteq> CHR ''+'' \<and> c \<noteq> CHR ''-''"
  by (auto simp: is_digit_def)

text \<open>
  C6. A date string of the form YYYY-MM-DD H:MM:SS with a one-digit hour is rewritten
  with the hour zero-padded; a string of the form YYYY-MM-DD HH:MM:SS is returned
  unchanged; so the one-digit form and its padded form normalise to the same string,
  as \<open>2024-01-05 7:00:00\<close> and \<open>2024-01-05 07:00:00\<close> do.
\<close>

theorem normalize_date_format_pads_hour:
  assumes "length y = 4" "length mo = 2" "length d = 2" "length mi = 2" "length se = 2"
    and "\<forall>c\<in>set (y @ mo @ d @ [h0, h] @ mi @ se). is_digit c"
  shows "normalize_date_format (y @ ''-'' @ mo @ ''-'' @ d @ '' '' @ [h] @ '':'' @ mi @ '':'' @ se)
           = y @ ''-'' @ mo @ ''-'' @ d @ '' '' @ [CHR ''0'', h] @ '':'' @ mi @ '':'' @ se
       \<and> normalize_date_format (y @ ''-'' @ mo @ ''-'' @ d @ '' '' @ [h0, h] @ '':'' @ mi @ '':'' @ se)
           = y @ ''-'' @ mo @ ''-'' @ d @ '' '' @ [h0, h] @ '':'' @ mi @ '':'' @ se
       \<and> normalize_date_format (y @ ''-'' @ mo @ ''-'' @ d @ '' '' @ [h] @ '':'' @ mi @ '':'' @ se)
           = normalize_date_format
               (y @ ''-'' @ mo @ ''-'' @ d @ '' '' @ [CHR ''0'', h] @ '':'' @ mi @ '':'' @ se)"
proof -
  have dig: "\<forall>c\<in>set (y @ mo @ d @ [h] @ mi @ se). is_digit c"
    and dig3: "\<forall>c\<in>set (y @ mo @ d). is_digit c" and dh: "is_digit h"
    using assms(6) by auto
  have m1: "match_hour_pattern (y @ ''-'' @ mo @ ''-'' @ d @ '' '' @ [h] @ '':'' @ mi @ '':'' @ se)
     = Some (y @ ''-'' @ mo @ ''-'' @ d, [h], mi, se)"
    using match_single[OF assms(1-5) dig, of "[]"] by simp
  have m2: "match_hour_pattern (y @ ''-'' @ mo @ ''-'' @ d @ '' '' @ [a, h] @ '':'' @ mi @ '':'' @ se) = None" for a
    using match_double[OF assms(1-3) dig3 dh, of a "'':'' @ mi @ '':'' @ se"] by simp
  have ne: "y \<noteq> []" using assms(1) by auto
  have one: "normalize_date_format (y @ ''-'' @ mo @ ''-'' @ d @ '' '' @ [h] @ '':'' @ mi @ '':'' @ se)
           = y @ ''-'' @ mo @ ''-'' @ d @ '' '' @ [CHR ''0'', h] @ '':'' @ mi @ '':'' @ se"
    unfolding normalize_date_format_def m1 using ne digit_not_sign[OF dh]
    by (simp add: zfill_single)
  have two: "normalize_date_format (y @ ''-'' @ mo @ ''-'' @ d @ '' '' @ [a, h] @ '':'' @ mi @ '':'' @ se)
           = y @ ''-'' @ mo @ ''-'' @ d @ '' '' @ [a, h] @ '':'' @ mi @ '':'' @ se" for a
    unfolding normalize_date_format_def m2 using ne by simp
  show ?thesis using one two by simp
qed

theorem normalize_date_format_witness:
  "normalize_date_format ''2024-01-05 7:00:00'' = ''2024-01-05 07:00:00''
   \<and> normalize_date_format ''2024-01-05 07:00:00'' = ''2024-01-05 07:00:00''
   \<and> normalize_date_format ''2024-01-05 7:00:00'' = normalize_date_format ''2024-01-05 07:00:00''"
proof -
  have d: "\<forall>c\<in>set (''2024'' @ ''01'' @ ''05'' @ [CHR ''0'', CHR ''7''] @ ''00'' @ ''00''). is_digit c"
    by (simp add: is_digit_def)
  show ?thesis
    using normalize_date_format_pads_hour[of "''2024''" "''01''" "''05''" "''00''" "''00''" "CHR ''0''" "CHR ''7''", OF _ _ _ _ _ d]
    by simp
qed

section \<open>Summary and exit status (lottery-rewards)\<close>

lemma lottery_save_keeps_counters:
  "failed_checks (lottery_save_report_to_csv write_file s f) = failed_checks s
   \<and> failed_checks (lottery_save_detailed_log write_file s f) = failed_checks s
   \<and> total_checks (lottery_save_report_to_csv write_file s f) = total_checks s
   \<and> total_checks (lottery_save_detailed_log write_file s f) = total_checks s"
  by (simp add: lottery_save_report_to_csv_def lottery_save_detailed_log_def log_info_def
      lottery_log_error_def Let_def split: option.splits)

lemma lottery_save_failure_logged:
  "write_file f = Some e \<Longrightarrow>
     errors (lottery_save_report_to_csv write_file s f)
       = errors s @ [Text ''Error while saving the report'']"
  by (simp add: lottery_save_report_to_csv_def lottery_log_error_def Let_def)

lemma lottery_main_exit_status:
  assumes "and_then (lottery_init read_json read_csv promo_file requirements_file actions_file
                       verbose_flag json_flag)
             (\<lambda>(docs, s). lottery_validate_all docs s) = Inr s1"
  shows "fst (lottery_main read_json read_csv write_file promo_file requirements_file actions_file
                output_file log_file verbose_flag json_flag)
           = (if failed_checks s1 > 0 then 1 else 0)"
  using assms by (simp add: lottery_main_def Let_def lottery_save_keeps_counters)

lemma lottery_print_summary_zero:
  "lottery_print_summary (s\<lparr>total_checks := 0, json_output := False\<rparr>) = Inl ZeroDivisionError"
  by (simp add: lottery_print_summary_def print_header_def py_true_div_def and_then_def Let_def)

lemma lottery_print_summary_json:
  "json_output s \<Longrightarrow> lottery_print_summary s = Inr (print_header s ''CHECK RESULTS'')"
  by (simp add: lottery_print_summary_def print_header_def Let_def)

lemma lottery_print_summary_total:
  "total_checks s \<noteq> 0 \<Longrightarrow> lottery_print_summary s = Inr (print_header s ''CHECK RESULTS'')"
  by (simp add: lottery_print_summary_def print_header_def py_true_div_def and_then_def Let_def)

lemma shop_print_summary_returns: "\<not> isl (shop_print_summary s)"
  by (simp add: shop_print_summary_def py_true_div_def and_then_def Let_def)

lemma end_news_print_summary_returns: "\<not> isl (end_news_print_summary s)"
  by (simp add: end_news_print_summary_def py_true_div_def and_then_def Let_def)

text \<open>
  C10. The failing state: no check was logged and \<open>json_output\<close> is off. The summary of
  lottery-rewards then raises \<open>ZeroDivisionError\<close>, whatever else the ledger holds, as it
  does for the ledger that \<open>__init__\<close> starts from; the summaries of shop-offers and of
  end-news-double-points return for every ledger.
\<close>

theorem lottery_summary_divides_by_zero:
  "lottery_print_summary (s\<lparr>total_checks := 0, json_output := False\<rparr>) = Inl ZeroDivisionError
   \<and> lottery_print_summary (init_ledger True False) = Inl ZeroDivisionError
   \<and> \<not> isl (shop_print_summary s)
   \<and> \<not> isl (end_news_print_summary s)"
proof -
  have "init_ledger True False = (init_ledger True False)\<lparr>total_checks := 0, json_output := False\<rparr>"
    by (simp add: init_ledger_def)
  then have "lottery_print_summary (init_ledger True False) = Inl ZeroDivisionError"
    using lottery_print_summary_zero[of "init_ledger True False"] by simp
  then show ?thesis
    using lottery_print_summary_zero shop_print_summary_returns end_news_print_summary_returns
    by blast
qed

text \<open>
  C8. The failing run: the three files load, the table has no row, so no check is
  logged. With \<open>json_output\<close> off the summary raises, nothing catches the exception, and
  the process ends with status 1 before \<open>sys.exit\<close>; the same run with \<open>json_output\<close> on
  reaches \<open>sys.exit\<close> with \<open>failed_checks = 0\<close> and status 0.
\<close>

theorem lottery_exit_status_after_crash:
  "lottery_main
     (\<lambda>p. if p = ''promo.json''
          then Inr (JObj [(''awards'', JArr [JInt 7]),
                          (''parameters'', JObj [(''seasonPassActions'', JArr [JInt 1, JInt 2])])])
          else Inr (JArr [JObj [(''@id'', JInt 7), (''needAction'', JStr ''1,2'')]]))
     (\<lambda>p. Inr []) (\<lambda>p. None)
     ''promo.json'' ''requirements.csv'' ''actions.json''
     ''validation_report.csv'' ''validation_detailed.log'' True False
   = (1, None)
   \<and> fst (lottery_main
     (\<lambda>p. if p = ''promo.json''
          then Inr (JObj [(''awards'', JArr [JInt 7]),
                          (''parameters'', JObj [(''seasonPassActions'', JArr [JInt 1, JInt 2])])])
          else Inr (JArr [JObj [(''@id'', JInt 7), (''needAction'', JStr ''1,2'')]]))
     (\<lambda>p. Inr []) (\<lambda>p. None)
     ''promo.json'' ''requirements.csv'' ''actions.json''
     ''validation_report.csv'' ''validation_detailed.log'' True True) = 0
   \<and> map_option failed_checks (snd (lottery_main
     (\<lambda>p. if p = ''promo.json''
          then Inr (JObj [(''awards'', JArr [JInt 7]),
                          (''parameters'', JObj [(''seasonPassActions'', JArr [JInt 1, JInt 2])])])
          else Inr (JArr [JObj [(''@id'', JInt 7), (''needAction'', JStr ''1,2'')]]))
     (\<lambda>p. Inr []) (\<lambda>p. None)
     ''promo.json'' ''requirements.csv'' ''actions.json''
     ''validation_report.csv'' ''validation_detailed.log'' True True)) = Some 0"
  by code_simp

end
